theory Spec2Isabelle
  imports Complex_Main "HOL-Library.AList" "HOL-Library.Log_Nat"
begin

section \<open>Numbers of the source language\<close>

text \<open>
  Every \<^verbatim>\<open>number\<close> of the source is an IEEE 754 double. A value is Not-a-Number, a
  signed infinity or a signed finite magnitude; the first argument of \<open>Inf\<close> and
  \<open>Fin\<close> is the sign bit (\<open>True\<close> for negative), the second argument of \<open>Fin\<close> the
  magnitude, a non-negative rational. Zero keeps its sign, as in the source language.
\<close>

datatype jsnum = NaN | Inf bool | Fin bool rat

definition pow2 :: "int \<Rightarrow> rat" where
  "pow2 n = (if 0 \<le> n then 2 ^ nat n else 1 / 2 ^ nat (- n))"

text \<open>\<open>ilog2 a\<close> is the binary exponent of a positive rational: \<open>2^e \<le> a < 2^(e+1)\<close>.\<close>

definition ilog2 :: "rat \<Rightarrow> int" where
  "ilog2 a = (let (p, q) = quotient_of a; d = bitlen p - bitlen q
              in if pow2 d \<le> a then d else d - 1)"

text \<open>Round to the nearest integer, a tie to the even neighbour.\<close>

definition round_half_even :: "rat \<Rightarrow> int" where
  "round_half_even x = (let f = \<lfloor>x\<rfloor>; d = x - of_int f
                        in if d < 1 / 2 then f
                           else if 1 / 2 < d then f + 1
                           else if even f then f else f + 1)"

text \<open>
  The exponent of the unit in the last place of a double of magnitude \<open>a\<close>: 53 bits of
  precision, subnormal numbers below \<open>2^-1022\<close>.
\<close>

definition ulp_exp :: "rat \<Rightarrow> int" where
  "ulp_exp a = max (ilog2 a - 52) (- 1074)"

text \<open>
  \<open>round_double s a\<close> is the double nearest to the exact magnitude \<open>a\<close> with sign \<open>s\<close>:
  what every arithmetic operator of the source language returns for an exact result \<open>a\<close>.
  A rounded magnitude of \<open>2^1024\<close> or more is an infinity; \<open>overflow_bound\<close> is that
  power of two, written out.
\<close>

definition overflow_bound :: rat where
  "overflow_bound = 179769313486231590772930519078902473361797697894230657273430081157732675805500963132708477322407536021120113879871393357658789768814416622492847430639474124377767893424865485276302219601246094119453082952085005768838150682342462881473913110540827237163350510684586298239947245938479716304835356329624224137216"

definition round_double :: "bool \<Rightarrow> rat \<Rightarrow> jsnum" where
  "round_double s a =
     (if a = 0 then Fin s 0
      else let u = ulp_exp a;
               v = of_int (round_half_even (a / pow2 u)) * pow2 u
           in if overflow_bound \<le> v then Inf s else Fin s v)"

text \<open>The operator \<^verbatim>\<open>/\<close>.\<close>

fun js_div :: "jsnum \<Rightarrow> jsnum \<Rightarrow> jsnum" where
  "js_div NaN _ = NaN"
| "js_div _ NaN = NaN"
| "js_div (Inf _) (Inf _) = NaN"
| "js_div (Inf s) (Fin t _) = Inf (s \<noteq> t)"
| "js_div (Fin s _) (Inf t) = Fin (s \<noteq> t) 0"
| "js_div (Fin s a) (Fin t b) =
     (if b = 0 then (if a = 0 then NaN else Inf (s \<noteq> t))
      else round_double (s \<noteq> t) (a / b))"

text \<open>The operator \<^verbatim>\<open>*\<close>.\<close>

fun js_mul :: "jsnum \<Rightarrow> jsnum \<Rightarrow> jsnum" where
  "js_mul NaN _ = NaN"
| "js_mul _ NaN = NaN"
| "js_mul (Inf s) (Inf t) = Inf (s \<noteq> t)"
| "js_mul (Inf s) (Fin t b) = (if b = 0 then NaN else Inf (s \<noteq> t))"
| "js_mul (Fin s a) (Inf t) = (if a = 0 then NaN else Inf (s \<noteq> t))"
| "js_mul (Fin s a) (Fin t b) = round_double (s \<noteq> t) (a * b)"

text \<open>
  \<^verbatim>\<open>Math.round\<close>: the nearest integer, a tie towards positive infinity; a result of
  zero keeps the sign of the argument.
\<close>

fun Math_round :: "jsnum \<Rightarrow> jsnum" where
  "Math_round NaN = NaN"
| "Math_round (Inf s) = Inf s"
| "Math_round (Fin s a) =
     (let r = \<lfloor>(if s then - a else a) + 1 / 2\<rfloor>
      in if r < 0 then Fin True (of_int (- r))
         else if r = 0 then Fin s 0
         else Fin False (of_int r))"

text \<open>A non-negative integer literal or counter as a number.\<close>

definition num :: "nat \<Rightarrow> jsnum" where
  "num n = Fin False (of_nat n)"

text \<open>The numeric order \<^verbatim>\<open><=\<close>: false whenever an operand is Not-a-Number.\<close>

fun js_value :: "jsnum \<Rightarrow> rat option" where
  "js_value (Fin s a) = Some (if s then - a else a)"
| "js_value _ = None"


section \<open>The job registry (src/utils/jobManager.ts)\<close>

datatype job_status = pending | processing | completed | failed

datatype jsval = JStr string | JNum jsnum | JBool bool | JUndefined

text \<open>
  \<open>details\<close> of a job: the declared fields, and \<open>extra\<close> for the further properties that
  \<open>completeJob\<close> merges in, in insertion order.
\<close>

record job_details =
  totalImages :: jsnum
  processedImages :: jsnum
  mediaIds :: "string list"
  tiktokPostId :: "string option"
  error :: "string option"
  extra :: "(string \<times> jsval) list"

text \<open>The field \<^verbatim>\<open>id\<close> of the source is \<open>id_job\<close>; dates are milliseconds since the epoch.\<close>

record job =
  id_job :: string
  status :: job_status
  progress :: jsnum
  details :: job_details
  createdAt :: int
  updatedAt :: int

text \<open>
  The table \<^verbatim>\<open>Map<string, Job>\<close> keeps its entries in insertion order: \<^verbatim>\<open>get\<close> is
  \<open>map_of\<close>, \<^verbatim>\<open>set\<close> is \<open>AList.update\<close> (an existing key keeps its place, a new key goes
  last), \<^verbatim>\<open>delete\<close> is \<open>AList.delete\<close>. Every entry holds a job object of its own.
\<close>

type_synonym job_table = "(string \<times> job) list"

text \<open>
  \<open>createJob\<close>: the identifier that \<^verbatim>\<open>generateJobId\<close> draws and the two clock readings
  are parameters.
\<close>

definition createJob :: "string \<Rightarrow> int \<Rightarrow> int \<Rightarrow> jsnum \<Rightarrow> job_table \<Rightarrow> job \<times> job_table" where
  "createJob new_id t_created t_updated n_total jobs =
     (let j = \<lparr>id_job = new_id, status = pending, progress = num 0,
                details = \<lparr>totalImages = n_total, processedImages = num 0, mediaIds = [],
                           tiktokPostId = None, error = None, extra = []\<rparr>,
                createdAt = t_created, updatedAt = t_updated\<rparr>
      in (j, AList.update new_id j jobs))"


text \<open>\<^verbatim>\<open>Partial<Job>\<close>: \<open>None\<close> is a property the update object does not have.\<close>

record job_patch =
  p_id :: "string option"
  p_status :: "job_status option"
  p_progress :: "jsnum option"
  p_details :: "job_details option"
  p_createdAt :: "int option"



text \<open>An optional string is truthy when it is present and not empty.\<close>

fun truthy :: "string option \<Rightarrow> bool" where
  "truthy None = False"
| "truthy (Some s) = (s \<noteq> [])"

definition updateJobProgress ::
  "int \<Rightarrow> string \<Rightarrow> jsnum \<Rightarrow> string option \<Rightarrow> job_table \<Rightarrow> job option \<times> job_table" where
  "updateJobProgress now jobId processed mediaId jobs =
     (case map_of jobs jobId of
        None \<Rightarrow> (None, jobs)
      | Some j \<Rightarrow>
          let d0 = details j;
              d1 = (if truthy mediaId then d0\<lparr>mediaIds := mediaIds d0 @ [the mediaId]\<rparr> else d0);
              d2 = d1\<lparr>processedImages := processed\<rparr>;
              j1 = j\<lparr>details := d2,
                     progress := Math_round (js_mul (js_div processed (totalImages d2)) (num 100)),
                     updatedAt := now\<rparr>;
              j2 = (if status j1 = pending then j1\<lparr>status := processing\<rparr> else j1)
          in (Some j2, AList.update jobId j2 jobs))"

text \<open>
  The optional third argument of \<open>completeJob\<close>: the properties it carries override those
  of \<open>details\<close>, the others stay.
\<close>

record details_patch =
  d_totalImages :: "jsnum option"
  d_processedImages :: "jsnum option"
  d_mediaIds :: "string list option"
  d_tiktokPostId :: "string option"
  d_error :: "string option"
  d_extra :: "(string \<times> jsval) list"

definition spread_details :: "job_details \<Rightarrow> details_patch \<Rightarrow> job_details" where
  "spread_details d p =
     \<lparr>totalImages = (case d_totalImages p of None \<Rightarrow> totalImages d | Some v \<Rightarrow> v),
      processedImages = (case d_processedImages p of None \<Rightarrow> processedImages d | Some v \<Rightarrow> v),
      mediaIds = (case d_mediaIds p of None \<Rightarrow> mediaIds d | Some v \<Rightarrow> v),
      tiktokPostId = (case d_tiktokPostId p of None \<Rightarrow> tiktokPostId d | Some v \<Rightarrow> Some v),
      error = (case d_error p of None \<Rightarrow> error d | Some v \<Rightarrow> Some v),
      extra = fold (\<lambda>(k, v). AList.update k v) (d_extra p) (extra d)\<rparr>"

definition completeJob ::
  "int \<Rightarrow> string \<Rightarrow> string \<Rightarrow> details_patch option \<Rightarrow> job_table \<Rightarrow> job option \<times> job_table" where
  "completeJob now jobId postId xdetails jobs =
     (case map_of jobs jobId of
        None \<Rightarrow> (None, jobs)
      | Some j \<Rightarrow>
          let j1 = j\<lparr>status := completed, progress := num 100,
                     details := (details j)\<lparr>tiktokPostId := Some postId\<rparr>,
                     updatedAt := now\<rparr>;
              j2 = (case xdetails of None \<Rightarrow> j1
                    | Some p \<Rightarrow> j1\<lparr>details := spread_details (details j1) p\<rparr>)
          in (Some j2, AList.update jobId j2 jobs))"

definition failJob :: "int \<Rightarrow> string \<Rightarrow> string \<Rightarrow> job_table \<Rightarrow> job option \<times> job_table" where
  "failJob now jobId msg jobs =
     (case map_of jobs jobId of
        None \<Rightarrow> (None, jobs)
      | Some j \<Rightarrow>
          let j1 = j\<lparr>status := failed, details := (details j)\<lparr>error := Some msg\<rparr>,
                     updatedAt := now\<rparr>
          in (Some j1, AList.update jobId j1 jobs))"


text \<open>
  The values of \<^verbatim>\<open>config.jobs\<close> that the sweep reads (integers, in milliseconds and in
  hours), with the defaults of the configuration schema.
\<close>

record jobs_config =
  timeoutMs :: int
  cleanupAfterHours :: int

definition default_jobs_config :: jobs_config where
  "default_jobs_config = \<lparr>timeoutMs = 5 * 60 * 1000, cleanupAfterHours = 24\<rparr>"

text \<open>
  The body of the loop of \<open>cleanupOldJobs\<close> for one entry of the table. \<open>stamp jobId\<close> is
  the clock reading \<^verbatim>\<open>new Date()\<close> taken while that entry is visited.
\<close>

fun sweep_entry :: "int \<Rightarrow> int \<Rightarrow> (string \<Rightarrow> int) \<Rightarrow> string \<times> job \<Rightarrow> job_table \<Rightarrow> job_table" where
  "sweep_entry cutoff timeoutCutoff stamp (jobId, j) jobs =
     (if createdAt j < cutoff \<and> (status j = completed \<or> status j = failed)
      then AList.delete jobId jobs
      else if updatedAt j < timeoutCutoff \<and> (status j = pending \<or> status j = processing)
      then AList.update jobId
             (j\<lparr>status := failed, details := (details j)\<lparr>error := Some ''Job timed out''\<rparr>,
                updatedAt := stamp jobId\<rparr>) jobs
      else jobs)"

text \<open>
  \<open>cleanupOldJobs\<close>: \<open>now1\<close> and \<open>now2\<close> are the two readings \<^verbatim>\<open>Date.now()\<close> behind the
  two cut-off dates; the loop visits every entry of the table once, in insertion order.
\<close>

definition cleanupOldJobs ::
  "jobs_config \<Rightarrow> int \<Rightarrow> int \<Rightarrow> (string \<Rightarrow> int) \<Rightarrow> job_table \<Rightarrow> job_table" where
  "cleanupOldJobs cfg now1 now2 stamp jobs =
     (let cutoff = now1 - cleanupAfterHours cfg * 60 * 60 * 1000;
          timeoutCutoff = now2 - timeoutMs cfg
      in fold (sweep_entry cutoff timeoutCutoff stamp) jobs jobs)"

section \<open>Strings of the source language\<close>

text \<open>
  Strings are lists of characters. \<open>toLowerCase\<close> changes the letters \<open>A\<close> to \<open>Z\<close>, which
  is what the source's \<^verbatim>\<open>toLowerCase\<close> does on an ASCII string; \<open>includes_str s t\<close> is
  \<^verbatim>\<open>s.includes(t)\<close>; \<open>string_of_nat\<close> is the decimal numeral that a template literal
  prints.
\<close>

definition lower_char :: "char \<Rightarrow> char" where
  "lower_char c = (let n = (of_char c :: nat) in if 65 \<le> n \<and> n \<le> 90 then char_of (n + 32) else c)"

definition toLowerCase :: "string \<Rightarrow> string" where
  "toLowerCase s = map lower_char s"

fun includes_str :: "string \<Rightarrow> string \<Rightarrow> bool" where
  "includes_str [] t = (t = [])"
| "includes_str (c # cs) t = (take (length t) (c # cs) = t \<or> includes_str cs t)"

definition startsWith :: "string \<Rightarrow> string \<Rightarrow> bool" where
  "startsWith s t = (take (length t) s = t)"

definition digit_char :: "nat \<Rightarrow> char" where
  "digit_char n = ''0123456789'' ! n"

function string_of_nat :: "nat \<Rightarrow> string" where
  "string_of_nat n =
     (if n < 10 then [digit_char n] else string_of_nat (n div 10) @ [digit_char (n mod 10)])"
  by pat_completeness auto
termination
  by (relation "measure id") auto

declare string_of_nat.simps [simp del]

section \<open>The post service (src/services/tiktokPost.ts)\<close>

datatype privacy = PUBLIC_TO_EVERYONE | MUTUAL_FOLLOW_FRIEND | FOLLOWER_OF_CREATOR | SELF_ONLY

text \<open>\<^verbatim>\<open>CreateCarouselOptions\<close>: \<open>None\<close> is a property left out.\<close>

record CreateCarouselOptions =
  caption :: "string option"
  tags :: "string list option"
  postAsDraft :: "bool option"
  privacyLevel :: "privacy option"

text \<open>
  The body of the publish request; \<open>text_info\<close> is the field \<^verbatim>\<open>text\<close> of the source and
  \<open>photo_images\<close> lists the media ids.
\<close>

record post_info =
  title :: string
  text_info :: string
  privacy_level :: privacy
  disable_duet :: bool
  disable_comment :: bool
  disable_stitch :: bool
  video_cover_timestamp_ms :: nat

record source_info =
  source :: string
  photo_cover_index :: nat
  photo_images :: "string list"

record post_body =
  post_info :: post_info
  source_info :: source_info

text \<open>
  The answer to the publish request as the code reads it: \<open>body_error\<close> is the field
  \<^verbatim>\<open>error\<close> of the JSON body (\<open>None\<close> when absent, else its optional message).
\<close>

record publish_data =
  publish_id :: string
  share_url :: "string option"
  publish_status :: string

record post_reply =
  ok :: bool
  http_status :: nat
  statusText :: string
  body_error :: "string option option"
  body_message :: "string option"
  body_data :: "publish_data option"

record TikTokPostResponse =
  post_id :: string
  post_share_url :: "string option"

text \<open>
  The outside world of the post service: the outcome of \<open>getValidAccessToken\<close> for an
  account, and the outcome of the request (the message of a thrown error, or the reply).
\<close>

record post_world =
  access_token :: "string \<Rightarrow> string + string"
  fetch_publish :: "string \<Rightarrow> post_body \<Rightarrow> string + post_reply"

section \<open>The media upload service (TikTokMediaService)\<close>

definition MAX_RETRIES :: nat where
  "MAX_RETRIES = 3"

definition RETRY_DELAY :: nat where
  "RETRY_DELAY = 1000"

definition retryableErrors :: "string list" where
  "retryableErrors = [''network error'', ''timeout'', ''temporary failure'', ''rate limit'',
                      ''server error'', ''502'', ''503'', ''504'']"

definition shouldRetryUpload :: "string \<Rightarrow> bool" where
  "shouldRetryUpload errorMessage =
     list_ex (\<lambda>e. includes_str (toLowerCase errorMessage) (toLowerCase e)) retryableErrors"

record upload_session =
  upload_url :: string
  media_id :: string

text \<open>
  The three network phases of one upload are answers of the outside world: each gives
  the message of the error it throws (\<open>Inl\<close>) or its result (\<open>Inr\<close>). The last two
  arguments of each, the path of the image and the retry count, name the occasion of the
  call, since the platform may answer the same request differently each time.
\<close>

record upload_world =
  initializeUploadSession :: "string \<Rightarrow> string \<Rightarrow> nat \<Rightarrow> string + upload_session"
  uploadFileToTikTok :: "string \<Rightarrow> string \<Rightarrow> nat \<Rightarrow> string + unit"
  commitUpload :: "string \<Rightarrow> string \<Rightarrow> string \<Rightarrow> nat \<Rightarrow> string + unit"

text \<open>What the service and the controller do that an observer can see, in order.\<close>

datatype event =
    EvInit string
  | EvTransfer string string
  | EvCommit string string
  | EvDelay nat
  | EvUpdateJob string job_patch
  | EvProgress string jsnum "string option"
  | EvPublish post_body
  | EvComplete string string
  | EvFail string string

text \<open>The body of the \<^verbatim>\<open>try\<close> block of \<open>uploadImage\<close>: one run of the three phases.\<close>

definition attempt :: "upload_world \<Rightarrow> string \<Rightarrow> string \<Rightarrow> nat \<Rightarrow> event list \<times> (string + string)" where
  "attempt w imagePath accountId retryCount =
     (case initializeUploadSession w accountId imagePath retryCount of
        Inl e \<Rightarrow> ([EvInit accountId], Inl e)
      | Inr uploadSession \<Rightarrow>
          (case uploadFileToTikTok w imagePath (upload_url uploadSession) retryCount of
             Inl e \<Rightarrow> ([EvInit accountId, EvTransfer imagePath (upload_url uploadSession)], Inl e)
           | Inr _ \<Rightarrow>
               (case commitUpload w (media_id uploadSession) accountId imagePath retryCount of
                  Inl e \<Rightarrow>
                    ([EvInit accountId, EvTransfer imagePath (upload_url uploadSession),
                      EvCommit (media_id uploadSession) accountId], Inl e)
                | Inr _ \<Rightarrow>
                    ([EvInit accountId, EvTransfer imagePath (upload_url uploadSession),
                      EvCommit (media_id uploadSession) accountId],
                     Inr (media_id uploadSession)))))"

text \<open>
  \<open>uploadImage\<close>: the result is the trace of events and the media id (\<open>Inr\<close>) or the
  message of the error thrown (\<open>Inl\<close>). The error of the recursive call passes through
  the callers unchanged, since the call is made in the \<^verbatim>\<open>catch\<close> block.
\<close>

function uploadImage ::
  "upload_world \<Rightarrow> string \<Rightarrow> string \<Rightarrow> nat \<Rightarrow> event list \<times> (string + string)" where
  "uploadImage w imagePath accountId retryCount =
     (case attempt w imagePath accountId retryCount of
        (evs, Inr mediaId) \<Rightarrow> (evs, Inr mediaId)
      | (evs, Inl errorMessage) \<Rightarrow>
          if retryCount < MAX_RETRIES \<and> shouldRetryUpload errorMessage
          then (case uploadImage w imagePath accountId (retryCount + 1) of
                  (evs', r) \<Rightarrow> (evs @ [EvDelay (RETRY_DELAY * 2 ^ retryCount)] @ evs', r))
          else (evs, Inl (''Failed to upload image after '' @ string_of_nat (retryCount + 1)
                          @ '' attempts: '' @ errorMessage)))"
  by pat_completeness auto
termination
  by (relation "measure (\<lambda>(w, p, a, r). MAX_RETRIES - r)") auto

declare uploadImage.simps [simp del]

text \<open>What a trace shows of the retries: the runs started and the waits.\<close>

fun attempts_of :: "event list \<Rightarrow> nat" where
  "attempts_of [] = 0"
| "attempts_of (EvInit _ # evs) = Suc (attempts_of evs)"
| "attempts_of (_ # evs) = attempts_of evs"

fun delays_of :: "event list \<Rightarrow> nat list" where
  "delays_of [] = []"
| "delays_of (EvDelay d # evs) = d # delays_of evs"
| "delays_of (_ # evs) = delays_of evs"

text \<open>\<^verbatim>\<open>xs.join(sep)\<close>, and \<^verbatim>\<open>a || b\<close> on an optional string.\<close>

fun join_with :: "string \<Rightarrow> string list \<Rightarrow> string" where
  "join_with sep [] = []"
| "join_with sep [x] = x"
| "join_with sep (x # y # ys) = x @ sep @ join_with sep (y # ys)"

definition or_else :: "string option \<Rightarrow> string \<Rightarrow> string" where
  "or_else a b = (if truthy a then the a else b)"

text \<open>
  The request body that \<open>createCarouselPost\<close> builds from the media ids and the options:
  caption with hashtags, cut to 2200 characters, the title its first 150 characters, and
  the privacy level, which the draft flag overrides.
\<close>

definition post_request_body :: "string list \<Rightarrow> CreateCarouselOptions \<Rightarrow> post_body" where
  "post_request_body ids options =
     (let caption0 = or_else (caption options) [];
          caption1 =
            (case tags options of
               None \<Rightarrow> caption0
             | Some ts \<Rightarrow>
                 if length ts > 0 then
                   let hashtags =
                         join_with '' ''
                           (map (\<lambda>tag. if startsWith tag ''#'' then tag else ''#'' @ tag) ts)
                   in if caption0 \<noteq> [] then caption0 @ [CHR 0x0A, CHR 0x0A] @ hashtags
                      else hashtags
                 else caption0);
          finalCaption =
            (if length caption1 > 2200 then take 2197 caption1 @ ''...'' else caption1);
          body =
            \<lparr>post_info =
               \<lparr>title = take 150 finalCaption,
                text_info = finalCaption,
                privacy_level =
                  (case privacyLevel options of None \<Rightarrow> FOLLOWER_OF_CREATOR | Some p \<Rightarrow> p),
                disable_duet = False,
                disable_comment = False,
                disable_stitch = False,
                video_cover_timestamp_ms = 0\<rparr>,
             source_info =
               \<lparr>source = ''FILE_UPLOAD'', photo_cover_index = 0, photo_images = ids\<rparr>\<rparr>
      in if postAsDraft options = Some True
         then body\<lparr>post_info := (post_info body)\<lparr>privacy_level := SELF_ONLY\<rparr>\<rparr>
         else body)"

text \<open>The error that a failed publish request raises.\<close>

definition publish_error :: "post_reply \<Rightarrow> string" where
  "publish_error response =
     ''Failed to create carousel post: ''
     @ or_else (case body_error response of None \<Rightarrow> None | Some m \<Rightarrow> m)
         (or_else (body_message response)
            (''HTTP '' @ string_of_nat (http_status response) @ '': '' @ statusText response))"

text \<open>
  \<open>createCarouselPost\<close>: the result is the trace (the request sent, if any) and the
  response (\<open>Inr\<close>) or the message of the error thrown (\<open>Inl\<close>).
\<close>

definition createCarouselPost ::
  "post_world \<Rightarrow> string list \<Rightarrow> CreateCarouselOptions \<Rightarrow> string
     \<Rightarrow> event list \<times> (string + TikTokPostResponse)" where
  "createCarouselPost w ids options accountId =
     (if ids = [] then
        ([], Inl ''At least one media ID is required to create a carousel post'')
      else if length ids > 10 then
        ([], Inl ''TikTok carousel posts support a maximum of 10 images'')
      else
        (case access_token w accountId of
           Inl e \<Rightarrow> ([], Inl e)
         | Inr accessToken \<Rightarrow>
             (case fetch_publish w accessToken (post_request_body ids options) of
                Inl e \<Rightarrow> ([EvPublish (post_request_body ids options)], Inl e)
              | Inr response \<Rightarrow>
                  ([EvPublish (post_request_body ids options)],
                   if \<not> ok response \<or> body_error response \<noteq> None
                   then Inl (publish_error response)
                   else (case body_data response of
                           None \<Rightarrow>
                             Inl ''Cannot read properties of undefined (reading 'publish_id')''
                         | Some postData \<Rightarrow>
                             Inr \<lparr>post_id = publish_id postData,
                                  post_share_url = share_url postData\<rparr>)))))"

text \<open>
  \<open>validatePostContent\<close>: \<open>None\<close> for a valid content, else the error of the result.
\<close>

definition validatePostContent :: "string option \<Rightarrow> string list option \<Rightarrow> string option" where
  "validatePostContent cap tgs =
     (if truthy cap \<and> length (the cap) > 2200 then Some ''Caption exceeds 2200 character limit''
      else case tgs of
        None \<Rightarrow> None
      | Some ts \<Rightarrow>
          if length ts > 30 then Some ''Too many tags (maximum 30 allowed)''
          else (case filter (\<lambda>tag. length tag > 100) ts of
                  [] \<Rightarrow> None
                | t # _ \<Rightarrow> Some (''Tag too long (maximum 100 characters): '' @ t)))"

section \<open>The credential store (TikTokAuthService)\<close>

text \<open>
  A stored token is a string: \<open>Sealed iv t\<close> is an authentic encryption of the text \<open>t\<close>
  with the nonce \<open>iv\<close>, as \<open>encrypt\<close> makes it, which \<open>decrypt\<close> opens again;
  \<open>Unsealable s\<close> is any other string \<open>s\<close>, on which \<open>decrypt\<close> throws. The cipher itself
  is not modelled.

  Some errors are thrown by the cipher or by the language runtime, not by the code:
  \<open>CipherFault s\<close> by the cipher on the string \<open>s\<close>, \<open>MissingTokenData\<close> by reading a
  property of an absent \<^verbatim>\<open>data.data\<close>, \<open>MissingAccessToken\<close> by encrypting an absent
  access token, \<open>InvalidTimeValue\<close> by \<^verbatim>\<open>toISOString\<close> on an invalid date. Their messages
  are a parameter, \<open>fault_text\<close>.
\<close>

datatype sealed = Sealed nat string | Unsealable string

datatype fault = CipherFault string | MissingTokenData | MissingAccessToken | InvalidTimeValue

definition encrypt :: "nat \<Rightarrow> string \<Rightarrow> sealed" where
  "encrypt iv t = Sealed iv t"

text \<open>\<^verbatim>\<open>s.split(':').length\<close>.\<close>

definition colon_parts :: "string \<Rightarrow> nat" where
  "colon_parts s = Suc (length (filter (\<lambda>c. c = CHR '':'') s))"

text \<open>
  \<open>decrypt\<close>: a string that has not three parts is refused by the code itself, any
  other string that is not an authentic encryption by the cipher.
\<close>

fun decrypt :: "(fault \<Rightarrow> string) \<Rightarrow> sealed \<Rightarrow> string + string" where
  "decrypt ft (Sealed iv t) = Inr t"
| "decrypt ft (Unsealable s) =
     Inl (if colon_parts s \<noteq> 3 then ''Invalid encrypted text format'' else ft (CipherFault s))"

fun present :: "sealed option \<Rightarrow> bool" where
  "present None = False"
| "present (Some (Sealed iv t)) = True"
| "present (Some (Unsealable s)) = (s \<noteq> [])"

record TikTokCredentials =
  clientId :: string
  clientSecret :: string
  redirectUri :: string
  appId :: string
  accessToken :: "sealed option"
  refreshToken_of :: "sealed option"
  expiresAt :: "int option"

type_synonym cred_store = "(string \<times> TikTokCredentials) list"

text \<open>
  The answer of the token endpoint as the code reads it (\<open>td_expires_in\<close> a whole number
  of seconds), and the outside world of one refresh: the outcome of the request for an
  account and a refresh token (the message of a thrown error, or the reply), the nonces
  that \<open>encrypt\<close> draws, the clock reading \<^verbatim>\<open>Date.now()\<close> of \<open>refreshToken\<close>, and the
  messages of the faults.
\<close>

record token_data =
  td_access_token :: "string option"
  td_expires_in :: "int option"
  td_refresh_token :: "string option"

record token_reply =
  t_ok :: bool
  t_error :: bool
  t_error_description :: "string option"
  t_message :: "string option"
  t_data :: "token_data option"

record auth_world =
  fetch_token :: "string \<Rightarrow> string \<Rightarrow> string + token_reply"
  iv_access :: nat
  iv_refresh :: nat
  now_refresh :: int
  fault_text :: "fault \<Rightarrow> string"

text \<open>
  A time value is a valid date within 8.64e15 milliseconds of the epoch. For a clock
  reading that is itself a valid date, the exact sum below is in that range exactly when
  the sum in double arithmetic is.
\<close>

definition date_valid :: "int \<Rightarrow> bool" where
  "date_valid t = (\<bar>t\<bar> \<le> 8640000000000000)"

text \<open>
  The \<^verbatim>\<open>try\<close> block of \<open>refreshToken\<close>: the request, the update of the credentials and
  the log entry, whose \<^verbatim>\<open>expiresAt.toISOString()\<close> throws on an invalid date; \<open>Inl\<close> is
  the message of the error the block throws.
\<close>

definition refresh_exchange ::
  "auth_world \<Rightarrow> string \<Rightarrow> TikTokCredentials \<Rightarrow> string \<Rightarrow> string + TikTokCredentials" where
  "refresh_exchange w accountId credentials refresh_plain =
     (case fetch_token w accountId refresh_plain of
        Inl e \<Rightarrow> Inl e
      | Inr response \<Rightarrow>
          if \<not> t_ok response \<or> t_error response then
            Inl (''TikTok refresh token error: ''
                 @ or_else (t_error_description response)
                     (or_else (t_message response) ''Unknown error''))
          else
            (case t_data response of
               None \<Rightarrow> Inl (fault_text w MissingTokenData)
             | Some tokenData \<Rightarrow>
                 (case td_access_token tokenData of
                    None \<Rightarrow> Inl (fault_text w MissingAccessToken)
                  | Some tok \<Rightarrow>
                      (case td_expires_in tokenData of
                         None \<Rightarrow> Inl (fault_text w InvalidTimeValue)
                       | Some n \<Rightarrow>
                           if \<not> date_valid (now_refresh w + n * 1000) then
                             Inl (fault_text w InvalidTimeValue)
                           else
                             Inr (credentials
                                   \<lparr>accessToken := Some (encrypt (iv_access w) tok),
                                    refreshToken_of :=
                                      (if truthy (td_refresh_token tokenData)
                                       then Some (encrypt (iv_refresh w)
                                                    (the (td_refresh_token tokenData)))
                                       else refreshToken_of credentials),
                                    expiresAt := Some (now_refresh w + n * 1000)\<rparr>)))))"

text \<open>
  \<open>refreshToken\<close>: the guard and the decryption of the stored refresh token come before
  the \<^verbatim>\<open>try\<close> block, so their errors leave the store as it is; an error of the block
  removes the account from the store.
\<close>

definition refreshToken ::
  "auth_world \<Rightarrow> string \<Rightarrow> cred_store \<Rightarrow> (string + TikTokCredentials) \<times> cred_store" where
  "refreshToken w accountId store =
     (case map_of store accountId of
        None \<Rightarrow> (Inl (''No refresh token available for account: '' @ accountId), store)
      | Some credentials \<Rightarrow>
          if \<not> present (refreshToken_of credentials) then
            (Inl (''No refresh token available for account: '' @ accountId), store)
          else
            (case decrypt (fault_text w) (the (refreshToken_of credentials)) of
               Inl e \<Rightarrow> (Inl e, store)
             | Inr refresh_plain \<Rightarrow>
                 (case refresh_exchange w accountId credentials refresh_plain of
                    Inl e \<Rightarrow> (Inl e, AList.delete accountId store)
                  | Inr credentials' \<Rightarrow>
                      (Inr credentials', AList.update accountId credentials' store))))"

definition getValidAccessToken ::
  "auth_world \<Rightarrow> int \<Rightarrow> string \<Rightarrow> cred_store \<Rightarrow> (string + string) \<times> cred_store" where
  "getValidAccessToken w now accountId store =
     (case map_of store accountId of
        None \<Rightarrow>
          (Inl (''No credentials found for account: '' @ accountId
                @ ''. Please authorize first.''), store)
      | Some credentials \<Rightarrow>
          let fiveMinutesFromNow = now + 5 * 60 * 1000;
              refreshed =
                (case expiresAt credentials of
                   None \<Rightarrow> (Inr credentials, store)
                 | Some t \<Rightarrow>
                     if t \<le> fiveMinutesFromNow then refreshToken w accountId store
                     else (Inr credentials, store))
          in (case refreshed of
                (Inl e, store') \<Rightarrow> (Inl e, store')
              | (Inr credentials', store') \<Rightarrow>
                  if \<not> present (accessToken credentials') then
                    (Inl (''No access token available for account: '' @ accountId), store')
                  else (decrypt (fault_text w) (the (accessToken credentials')), store')))"

definition storeCredentials :: "string \<Rightarrow> TikTokCredentials \<Rightarrow> cred_store \<Rightarrow> cred_store" where
  "storeCredentials accountId credentials store = AList.update accountId credentials store"

definition hasCredentials :: "string \<Rightarrow> cred_store \<Rightarrow> bool" where
  "hasCredentials accountId store = (map_of store accountId \<noteq> None)"

definition removeCredentials :: "string \<Rightarrow> cred_store \<Rightarrow> cred_store" where
  "removeCredentials accountId store = AList.delete accountId store"

section \<open>Base64 input (src/utils/validation.ts, uploadBase64Images)\<close>

text \<open>
  The regular expression \<^verbatim>\<open>/^data:([A-Za-z-+\/]+);base64,(.+)$/\<close>: the prefix \<open>data:\<close>, a
  non-empty run of letters, \<open>-\<close>, \<open>+\<close> and \<open>/\<close> (which must end at \<open>;base64,\<close>, since \<open>;\<close>
  is not in the class), and a non-empty rest without a line terminator. The result is the
  two groups.
\<close>

definition mime_char :: "char \<Rightarrow> bool" where
  "mime_char c =
     (let n = (of_char c :: nat)
      in (65 \<le> n \<and> n \<le> 90) \<or> (97 \<le> n \<and> n \<le> 122) \<or> c = CHR ''-'' \<or> c = CHR ''+''
         \<or> c = CHR ''/'')"

definition line_terminator :: "char \<Rightarrow> bool" where
  "line_terminator c = (c = CHR 0x0A \<or> c = CHR 0x0D)"

definition match_data_url :: "string \<Rightarrow> (string \<times> string) option" where
  "match_data_url s =
     (if startsWith s ''data:'' then
        let rest = drop 5 s;
            mime = takeWhile mime_char rest;
            after = dropWhile mime_char rest
        in if mime \<noteq> [] \<and> startsWith after '';base64,'' then
             let content = drop 8 after
             in if content \<noteq> [] \<and> \<not> list_ex line_terminator content
                then Some (mime, content) else None
           else None
      else None)"

text \<open>
  \<^verbatim>\<open>Buffer.from(s, 'base64')\<close>: the characters up to the first \<open>=\<close> that belong to the
  base64 alphabet (standard or URL-safe), six bits each, packed into bytes.
\<close>

definition b64_value :: "char \<Rightarrow> nat option" where
  "b64_value c =
     (let n = (of_char c :: nat)
      in if 65 \<le> n \<and> n \<le> 90 then Some (n - 65)
         else if 97 \<le> n \<and> n \<le> 122 then Some (n - 71)
         else if 48 \<le> n \<and> n \<le> 57 then Some (n + 4)
         else if c = CHR ''+'' \<or> c = CHR ''-'' then Some 62
         else if c = CHR ''/'' \<or> c = CHR ''_'' then Some 63
         else None)"

fun pack_sextets :: "nat list \<Rightarrow> nat list" where
  "pack_sextets (a # b # c # d # rest) =
     (a * 4 + b div 16) # ((b mod 16) * 16 + c div 4) # ((c mod 4) * 64 + d) # pack_sextets rest"
| "pack_sextets [a, b, c] = [a * 4 + b div 16, (b mod 16) * 16 + c div 4]"
| "pack_sextets [a, b] = [a * 4 + b div 16]"
| "pack_sextets _ = []"

definition base64_decode :: "string \<Rightarrow> nat list" where
  "base64_decode s =
     pack_sextets (map the (filter (\<lambda>v. v \<noteq> None)
                              (map b64_value (takeWhile (\<lambda>c. c \<noteq> CHR ''='') s))))"

text \<open>The values of \<^verbatim>\<open>config.upload\<close> that the validation reads, with their defaults.\<close>

record upload_config =
  maxFileSizeMB :: nat
  allowedMimeTypes :: "string list"

definition default_upload_config :: upload_config where
  "default_upload_config =
     \<lparr>maxFileSizeMB = 10, allowedMimeTypes = [''image/jpeg'', ''image/png'', ''image/webp'']\<rparr>"

text \<open>\<^verbatim>\<open>buffer[i]\<close>: \<open>None\<close> beyond the end of the buffer.\<close>

definition byte_at :: "nat list \<Rightarrow> nat \<Rightarrow> nat option" where
  "byte_at buf i = (if i < length buf then Some (buf ! i) else None)"

text \<open>
  The type that \<open>validateBase64Image\<close> reads from the first bytes of raw base64 data:
  the magic numbers of JPEG and PNG, and \<open>RIFF\<close> .. \<open>WEBP\<close>.
\<close>

definition sniff_mime :: "string \<Rightarrow> string option" where
  "sniff_mime base64Data =
     (let buffer = base64_decode (take 32 base64Data)
      in if byte_at buffer 0 = Some 0xFF \<and> byte_at buffer 1 = Some 0xD8 then Some ''image/jpeg''
         else if byte_at buffer 0 = Some 0x89 \<and> byte_at buffer 1 = Some 0x50
                 \<and> byte_at buffer 2 = Some 0x4E \<and> byte_at buffer 3 = Some 0x47
         then Some ''image/png''
         else if take 4 buffer = [0x52, 0x49, 0x46, 0x46]
                 \<and> take 4 (drop 8 buffer) = [0x57, 0x45, 0x42, 0x50]
         then Some ''image/webp''
         else None)"

text \<open>
  \<open>validateBase64Image\<close>: \<open>Inr\<close> the mime type of a valid image, \<open>Inl\<close> the error of an
  invalid one.
\<close>

definition validateBase64Image :: "upload_config \<Rightarrow> string \<Rightarrow> string + string" where
  "validateBase64Image cfg base64 =
     (let detected =
            (case match_data_url base64 of
               Some (mimeType, base64Data) \<Rightarrow> Inr (mimeType, base64Data)
             | None \<Rightarrow>
                 (case sniff_mime base64 of
                    Some mimeType \<Rightarrow> Inr (mimeType, base64)
                  | None \<Rightarrow> Inl ''Unable to detect image format from base64 data''))
      in case detected of
           Inl e \<Rightarrow> Inl e
         | Inr (mimeType, base64Data) \<Rightarrow>
             if mimeType \<notin> set (allowedMimeTypes cfg) then
               Inl (''Invalid image type. Allowed types: '' @ join_with '', '' (allowedMimeTypes cfg))
             else if (of_nat (maxFileSizeMB cfg) :: rat) * 1024 * 1024
                       < of_nat (length base64Data) * 3 / 4 then
               Inl (''Image size exceeds '' @ string_of_nat (maxFileSizeMB cfg) @ ''MB limit'')
             else Inr mimeType)"

text \<open>
  \<open>uploadMultipleImages\<close>: every path is uploaded in turn, a failure does not stop the
  loop; \<open>upload_each\<close> is the loop, with the media ids and the errors it collects.
\<close>

fun upload_each ::
  "upload_world \<Rightarrow> string \<Rightarrow> nat \<Rightarrow> string list \<Rightarrow> event list \<times> string list \<times> string list" where
  "upload_each w accountId i [] = ([], [], [])"
| "upload_each w accountId i (path # paths) =
     (case uploadImage w path accountId 0 of
        (evs, r) \<Rightarrow>
          (case upload_each w accountId (i + 1) paths of
             (evs', ids, errors) \<Rightarrow>
               (case r of
                  Inr mediaId \<Rightarrow> (evs @ evs', mediaId # ids, errors)
                | Inl e \<Rightarrow>
                    (evs @ evs', ids,
                     (''Image '' @ string_of_nat (i + 1) @ '': '' @ e) # errors))))"

definition uploadMultipleImages ::
  "upload_world \<Rightarrow> string list \<Rightarrow> string \<Rightarrow> event list \<times> (string + string list)" where
  "uploadMultipleImages w imagePaths accountId =
     (case upload_each w accountId 0 imagePaths of
        (evs, ids, errors) \<Rightarrow>
          if errors \<noteq> [] then
            (evs, Inl (''Failed to upload '' @ string_of_nat (length errors) @ '' images: ''
                       @ join_with ''; '' errors))
          else if ids = [] then (evs, Inl ''No images were successfully uploaded'')
          else (evs, Inr ids))"

text \<open>
  \<open>uploadBase64Images\<close>: \<open>temp_paths\<close> is its first loop, which names a temporary file
  for every image or throws at the first image that is not a data URL; \<open>stamp i\<close> is the
  reading \<^verbatim>\<open>Date.now()\<close> for image \<open>i\<close>. The files themselves are not modelled.
\<close>

fun temp_paths :: "(nat \<Rightarrow> nat) \<Rightarrow> nat \<Rightarrow> string list \<Rightarrow> string + string list" where
  "temp_paths stamp i [] = Inr []"
| "temp_paths stamp i (base64Data # rest) =
     (case match_data_url base64Data of
        None \<Rightarrow> Inl (''Invalid base64 format for image '' @ string_of_nat (i + 1))
      | Some (mimeType, base64Content) \<Rightarrow>
          let extension = (if includes_str mimeType ''png'' then ''.png''
                           else if includes_str mimeType ''webp'' then ''.webp'' else ''.jpg'');
              tempPath = ''/tmp/tiktok-base64-'' @ string_of_nat (stamp i) @ ''-''
                         @ string_of_nat i @ extension
          in (case temp_paths stamp (i + 1) rest of
                Inl e \<Rightarrow> Inl e
              | Inr paths \<Rightarrow> Inr (tempPath # paths)))"

definition uploadBase64Images ::
  "upload_world \<Rightarrow> (nat \<Rightarrow> nat) \<Rightarrow> string list \<Rightarrow> string
     \<Rightarrow> event list \<times> (string + string list)" where
  "uploadBase64Images w stamp base64Images accountId =
     (case temp_paths stamp 0 base64Images of
        Inl e \<Rightarrow> ([], Inl e)
      | Inr tempPaths \<Rightarrow> uploadMultipleImages w tempPaths accountId)"

section \<open>The asynchronous task (src/controllers/carouselController.ts)\<close>


record async_world =
  uploads :: upload_world
  posts :: post_world
  temp_stamp :: "nat \<Rightarrow> nat"
  clock_start :: int
  clock_progress :: "nat \<Rightarrow> int"
  clock_end :: int











section \<open>Properties of the job registry\<close>

lemma overflow_bound_power: "overflow_bound = 2 ^ 1024"
  by (simp add: overflow_bound_def)

lemma num_neq_NaN: "num n \<noteq> NaN"
  by (simp add: num_def)

text \<open>
  C10. For a job id that the table does not hold, each of \<open>updateJobProgress\<close>,
  \<open>completeJob\<close> and \<open>failJob\<close> returns the not-found value and the table itself, so no
  job is created, changed or removed.
\<close>

theorem unknown_job_is_a_miss:
  assumes "map_of jobs jobId = None"
  shows "updateJobProgress now jobId n m jobs = (None, jobs)
       \<and> completeJob now jobId postId xd jobs = (None, jobs)
       \<and> failJob now jobId msg jobs = (None, jobs)"
  using assms by (simp add: updateJobProgress_def completeJob_def failJob_def)

definition table_A :: job_table where
  "table_A = snd (createJob ''job_1_a'' 10 10 (num 5) [])"

theorem unknown_job_is_a_miss_witness:
  "map_of table_A ''job_2_b'' = None
   \<and> updateJobProgress 20 ''job_2_b'' (num 1) (Some ''m1'') table_A = (None, table_A)
   \<and> completeJob 20 ''job_2_b'' ''post1'' None table_A = (None, table_A)
   \<and> failJob 20 ''job_2_b'' ''network error'' table_A = (None, table_A)"
proof -
  have miss: "map_of table_A ''job_2_b'' = None"
    by (simp add: table_A_def createJob_def Let_def)
  show ?thesis
    using miss unknown_job_is_a_miss [OF miss, of 20 "num 1" "Some ''m1''" "''post1''" None "''network error''"]
    by simp
qed

text \<open>
  C5. A job that is \<open>completed\<close> or \<open>failed\<close> keeps that status through any call of
  \<open>updateJobProgress\<close>, whichever job the call addresses: the call never moves a terminal
  job back to \<open>pending\<close> or \<open>processing\<close>.
\<close>

theorem updateJobProgress_keeps_terminal_status:
  assumes "map_of jobs k = Some j" and "status j = completed \<or> status j = failed"
  shows "\<exists>j'. map_of (snd (updateJobProgress now jobId n m jobs)) k = Some j'
              \<and> status j' = status j"
proof (cases "map_of jobs jobId")
  case None
  then show ?thesis
    using assms by (simp add: updateJobProgress_def)
next
  case (Some a)
  show ?thesis
  proof (cases "k = jobId")
    case True
    with Some assms have "a = j" by simp
    with Some True assms show ?thesis
      by (auto simp add: updateJobProgress_def Let_def update_conv')
  next
    case False
    with Some assms show ?thesis
      by (simp add: updateJobProgress_def Let_def update_conv')
  qed
qed

definition table_done :: job_table where
  "table_done = snd (completeJob 30 ''job_1_a'' ''post1'' None table_A)"

theorem updateJobProgress_keeps_terminal_status_witness:
  "(\<exists>j. map_of table_done ''job_1_a'' = Some j \<and> status j = completed)
   \<and> (\<exists>j'. map_of (snd (updateJobProgress 40 ''job_1_a'' (num 2) (Some ''m9'') table_done))
              ''job_1_a'' = Some j'
          \<and> status j' = completed)"
proof -
  obtain j where j: "map_of table_done ''job_1_a'' = Some j" and st: "status j = completed"
    by (simp add: table_done_def table_A_def createJob_def completeJob_def Let_def)
  from st have "status j = completed \<or> status j = failed" by simp
  from updateJobProgress_keeps_terminal_status [OF j this, of 40 "''job_1_a''" "num 2" "Some ''m9''"]
  show ?thesis using j st by auto
qed

text \<open>
  C4. For a job that the table holds, \<open>failJob\<close> sets the status to \<open>failed\<close> and
  \<open>details.error\<close> to the message and leaves \<open>details.processedImages\<close>,
  \<open>details.mediaIds\<close> and \<open>progress\<close> as they were; \<open>completeJob\<close> sets \<open>progress\<close> to 100
  whatever it was before, with or without extra details.
\<close>

theorem failJob_keeps_work_completeJob_forces_100:
  assumes "map_of jobs jobId = Some j"
  shows "(\<exists>f. failJob now jobId msg jobs = (Some f, AList.update jobId f jobs)
             \<and> map_of (snd (failJob now jobId msg jobs)) jobId = Some f
             \<and> status f = failed
             \<and> error (details f) = Some msg
             \<and> processedImages (details f) = processedImages (details j)
             \<and> mediaIds (details f) = mediaIds (details j)
             \<and> progress f = progress j)
       \<and> (\<exists>c. completeJob now jobId postId xd jobs = (Some c, AList.update jobId c jobs)
             \<and> map_of (snd (completeJob now jobId postId xd jobs)) jobId = Some c
             \<and> status c = completed
             \<and> progress c = num 100)"
  using assms
  by (cases xd) (simp_all add: failJob_def completeJob_def Let_def update_conv')

definition table_B :: job_table where
  "table_B = snd (updateJobProgress 20 ''job_1_a'' (num 2) (Some ''m1'') table_A)"

theorem failJob_keeps_work_completeJob_forces_100_witness:
  "(\<exists>j. map_of table_B ''job_1_a'' = Some j
        \<and> processedImages (details j) = num 2 \<and> mediaIds (details j) = [''m1'']
        \<and> progress j = num 40)
   \<and> (\<exists>f. failJob 30 ''job_1_a'' ''network error'' table_B
             = (Some f, AList.update ''job_1_a'' f table_B)
         \<and> status f = failed \<and> error (details f) = Some ''network error''
         \<and> processedImages (details f) = num 2 \<and> mediaIds (details f) = [''m1'']
         \<and> progress f = num 40)
   \<and> (\<exists>c. completeJob 30 ''job_1_a'' ''post1'' None table_B
             = (Some c, AList.update ''job_1_a'' c table_B)
         \<and> status c = completed \<and> progress c = num 100)"
proof -
  have p40: "Math_round (js_mul (js_div (num 2) (num 5)) (num 100)) = num 40"
    by code_simp
  obtain j where j: "map_of table_B ''job_1_a'' = Some j"
    and pj: "processedImages (details j) = num 2" "mediaIds (details j) = [''m1'']"
            "progress j = num 40"
    by (simp add: table_B_def table_A_def createJob_def updateJobProgress_def Let_def p40)
  from failJob_keeps_work_completeJob_forces_100
         [OF j, of 30 "''network error''" "''post1''" None]
  show ?thesis using j pj by auto
qed

text \<open>
  C3, as the claim states it, fails: a job of zero images that is told of one processed
  image has the progress \<open>+Infinity\<close>, which is not Not-a-Number.
\<close>

definition table_Z :: job_table where
  "table_Z = snd (createJob ''job_0_z'' 10 10 (num 0) [])"

theorem progress_zero_total_counterexample:
  "map_option (\<lambda>j. totalImages (details j)) (map_of table_Z ''job_0_z'') = Some (num 0)
   \<and> map_option progress (fst (updateJobProgress 20 ''job_0_z'' (num 1) None table_Z))
       = Some (Inf False)
   \<and> Inf False \<noteq> NaN"
  by (simp add: table_Z_def createJob_def updateJobProgress_def Let_def num_def)

text \<open>
  C3, amended. For a job that the table holds, after \<open>updateJobProgress\<close> the progress is
  \<open>Math.round(processedImages / totalImages * 100)\<close> in the arithmetic of the source
  language, with no clamping. When \<open>totalImages\<close> is zero the progress is Not-a-Number
  exactly for a \<open>processedImages\<close> that is zero or Not-a-Number, and an infinity for every
  other \<open>processedImages\<close>.
\<close>

theorem updateJobProgress_progress_formula:
  assumes "map_of jobs jobId = Some j"
  shows "\<exists>j'. updateJobProgress now jobId p m jobs = (Some j', AList.update jobId j' jobs)
            \<and> map_of (snd (updateJobProgress now jobId p m jobs)) jobId = Some j'
            \<and> progress j' = Math_round (js_mul (js_div p (totalImages (details j))) (num 100))
            \<and> (totalImages (details j) = Fin s 0 \<longrightarrow>
                 progress j' = (case p of NaN \<Rightarrow> NaN
                                | Inf t \<Rightarrow> Inf (t \<noteq> s)
                                | Fin t a \<Rightarrow> if a = 0 then NaN else Inf (t \<noteq> s)))"
  using assms
  by (cases p) (simp_all add: updateJobProgress_def Let_def update_conv' num_def)

theorem updateJobProgress_progress_formula_witness:
  "(\<exists>j'. updateJobProgress 20 ''job_1_a'' (num 10) None table_A
            = (Some j', AList.update ''job_1_a'' j' table_A)
        \<and> progress j' = num 200)
   \<and> (\<exists>j. map_of table_Z ''job_0_z'' = Some j \<and> totalImages (details j) = Fin False 0)
   \<and> (\<exists>j'. updateJobProgress 20 ''job_0_z'' (num 0) None table_Z
            = (Some j', AList.update ''job_0_z'' j' table_Z)
        \<and> progress j' = NaN)"
proof -
  have p200: "Math_round (js_mul (js_div (num 10) (num 5)) (num 100)) = num 200"
    by code_simp
  obtain a where a: "map_of table_A ''job_1_a'' = Some a" and ta: "totalImages (details a) = num 5"
    by (simp add: table_A_def createJob_def Let_def)
  obtain z where z: "map_of table_Z ''job_0_z'' = Some z"
    and tz: "totalImages (details z) = Fin False 0"
    by (simp add: table_Z_def createJob_def Let_def num_def)
  from updateJobProgress_progress_formula [OF a, of 20 "num 10" None False]
  have A: "\<exists>j'. updateJobProgress 20 ''job_1_a'' (num 10) None table_A
                  = (Some j', AList.update ''job_1_a'' j' table_A)
              \<and> progress j' = num 200"
    using ta p200 by auto
  from updateJobProgress_progress_formula [OF z, of 20 "num 0" None False]
  have Z: "\<exists>j'. updateJobProgress 20 ''job_0_z'' (num 0) None table_Z
                  = (Some j', AList.update ''job_0_z'' j' table_Z)
              \<and> progress j' = NaN"
    using tz by (auto simp add: num_def)
  from A Z z tz show ?thesis by blast
qed

section \<open>The sweep of the job table\<close>

lemma map_of_sweep_entry_other:
  "k \<noteq> jobId \<Longrightarrow> map_of (sweep_entry c t stamp (jobId, j) tbl) k = map_of tbl k"
  by (simp add: update_conv' delete_conv')

lemma map_of_sweep_entry_same:
  "map_of (sweep_entry c t stamp (jobId, j) tbl) jobId =
     (if createdAt j < c \<and> (status j = completed \<or> status j = failed) then None
      else if updatedAt j < t \<and> (status j = pending \<or> status j = processing)
      then Some (j\<lparr>status := failed, details := (details j)\<lparr>error := Some ''Job timed out''\<rparr>,
                   updatedAt := stamp jobId\<rparr>)
      else map_of tbl jobId)"
  by (auto simp add: update_conv' delete_conv')

lemma map_of_fold_sweep:
  "distinct (map fst es) \<Longrightarrow>
   map_of (fold (sweep_entry c t stamp) es tbl) k =
     (case map_of es k of
        None \<Rightarrow> map_of tbl k
      | Some j \<Rightarrow>
          if createdAt j < c \<and> (status j = completed \<or> status j = failed) then None
          else if updatedAt j < t \<and> (status j = pending \<or> status j = processing)
          then Some (j\<lparr>status := failed, details := (details j)\<lparr>error := Some ''Job timed out''\<rparr>,
                       updatedAt := stamp k\<rparr>)
          else map_of tbl k)"
proof (induction es arbitrary: tbl)
  case Nil
  show ?case by simp
next
  case (Cons e es)
  obtain a b where e: "e = (a, b)" by (cases e)
  from Cons.prems e have d: "distinct (map fst es)" and fresh: "a \<notin> fst ` set es"
    by simp_all
  have step: "map_of (fold (sweep_entry c t stamp) (e # es) tbl) k
              = map_of (fold (sweep_entry c t stamp) es (sweep_entry c t stamp (a, b) tbl)) k"
    by (simp add: e)
  note IH = Cons.IH [OF d, of "sweep_entry c t stamp (a, b) tbl"]
  show ?case
  proof (cases "k = a")
    case True
    from fresh have none: "map_of es a = None"
      by (simp add: map_of_eq_None_iff)
    have lhs: "map_of (fold (sweep_entry c t stamp) (e # es) tbl) a
               = map_of (sweep_entry c t stamp (a, b) tbl) a"
      using step IH none True by (simp del: sweep_entry.simps)
    have rhs: "map_of (e # es) a = Some b"
      by (simp add: e)
    show ?thesis
      by (simp only: True lhs rhs option.case map_of_sweep_entry_same)
  next
    case False
    then have other: "map_of (sweep_entry c t stamp (a, b) tbl) k = map_of tbl k"
      by (rule map_of_sweep_entry_other)
    from False have tl: "map_of (e # es) k = map_of es k"
      by (simp add: e)
    show ?thesis
      unfolding step IH other tl ..
  qed
qed

text \<open>
  C6. One sweep of a table (its keys distinct, as the keys of a map are) removes exactly
  the jobs that are \<open>completed\<close> or \<open>failed\<close> and were created before the retention
  cut-off; it turns exactly the \<open>pending\<close> or \<open>processing\<close> jobs last updated before the
  timeout cut-off into \<open>failed\<close> jobs with the error \<open>Job timed out\<close> and a fresh
  \<open>updatedAt\<close>; every other job stays as it was, and no job appears.
\<close>

theorem cleanupOldJobs_sweep:
  assumes "distinct (map fst jobs)"
  shows "map_of (cleanupOldJobs cfg now1 now2 stamp jobs) k =
     (case map_of jobs k of
        None \<Rightarrow> None
      | Some j \<Rightarrow>
          if (status j = completed \<or> status j = failed)
             \<and> createdAt j < now1 - cleanupAfterHours cfg * 60 * 60 * 1000
          then None
          else if (status j = pending \<or> status j = processing)
             \<and> updatedAt j < now2 - timeoutMs cfg
          then Some (j\<lparr>status := failed, details := (details j)\<lparr>error := Some ''Job timed out''\<rparr>,
                       updatedAt := stamp k\<rparr>)
          else Some j)"
  unfolding cleanupOldJobs_def Let_def map_of_fold_sweep [OF assms]
  by (auto split: option.splits)

text \<open>A table of four jobs for the sweep at the instant 100000000 ms.\<close>

definition job_at :: "string \<Rightarrow> job_status \<Rightarrow> int \<Rightarrow> int \<Rightarrow> job" where
  "job_at i st c u =
     \<lparr>id_job = i, status = st, progress = num 0,
      details = \<lparr>totalImages = num 3, processedImages = num 0, mediaIds = [],
                 tiktokPostId = None, error = None, extra = []\<rparr>,
      createdAt = c, updatedAt = u\<rparr>"

definition table_S :: job_table where
  "table_S = [(''job_old'', job_at ''job_old'' completed 0 1000),
              (''job_stale'', job_at ''job_stale'' pending 90000000 90000000),
              (''job_live'', job_at ''job_live'' processing 99000000 99999000),
              (''job_lost'', job_at ''job_lost'' failed 99000000 99000000)]"

theorem cleanupOldJobs_sweep_witness:
  "distinct (map fst table_S)
   \<and> map_of (cleanupOldJobs default_jobs_config 100000000 100000000 (\<lambda>_. 100000001) table_S)
        ''job_old'' = None
   \<and> map_of (cleanupOldJobs default_jobs_config 100000000 100000000 (\<lambda>_. 100000001) table_S)
        ''job_stale''
      = Some ((job_at ''job_stale'' pending 90000000 100000001)
               \<lparr>status := failed,
                details := (details (job_at ''job_stale'' pending 90000000 90000000))
                             \<lparr>error := Some ''Job timed out''\<rparr>\<rparr>)
   \<and> map_of (cleanupOldJobs default_jobs_config 100000000 100000000 (\<lambda>_. 100000001) table_S)
        ''job_live'' = Some (job_at ''job_live'' processing 99000000 99999000)
   \<and> map_of (cleanupOldJobs default_jobs_config 100000000 100000000 (\<lambda>_. 100000001) table_S)
        ''job_lost'' = Some (job_at ''job_lost'' failed 99000000 99000000)
   \<and> map_of (cleanupOldJobs default_jobs_config 100000000 100000000 (\<lambda>_. 100000001) table_S)
        ''job_none'' = None"
proof -
  have d: "distinct (map fst table_S)"
    by (simp add: table_S_def)
  note sweep = cleanupOldJobs_sweep [OF d, of default_jobs_config 100000000 100000000 "\<lambda>_. 100000001"]
  have "map_of (cleanupOldJobs default_jobs_config 100000000 100000000 (\<lambda>_. 100000001) table_S)
          ''job_old'' = None"
    unfolding sweep by (simp add: table_S_def job_at_def default_jobs_config_def)
  moreover
  have "map_of (cleanupOldJobs default_jobs_config 100000000 100000000 (\<lambda>_. 100000001) table_S)
          ''job_stale''
        = Some ((job_at ''job_stale'' pending 90000000 100000001)
                 \<lparr>status := failed,
                  details := (details (job_at ''job_stale'' pending 90000000 90000000))
                               \<lparr>error := Some ''Job timed out''\<rparr>\<rparr>)"
    unfolding sweep by (simp add: table_S_def job_at_def default_jobs_config_def)
  moreover
  have "map_of (cleanupOldJobs default_jobs_config 100000000 100000000 (\<lambda>_. 100000001) table_S)
          ''job_live'' = Some (job_at ''job_live'' processing 99000000 99999000)"
    unfolding sweep by (simp add: table_S_def job_at_def default_jobs_config_def)
  moreover
  have "map_of (cleanupOldJobs default_jobs_config 100000000 100000000 (\<lambda>_. 100000001) table_S)
          ''job_lost'' = Some (job_at ''job_lost'' failed 99000000 99000000)"
    unfolding sweep by (simp add: table_S_def job_at_def default_jobs_config_def)
  moreover
  have "map_of (cleanupOldJobs default_jobs_config 100000000 100000000 (\<lambda>_. 100000001) table_S)
          ''job_none'' = None"
    unfolding sweep by (simp add: table_S_def)
  ultimately show ?thesis
    using d by blast
qed

section \<open>Retries of one upload\<close>

lemma attempts_of_append: "attempts_of (xs @ ys) = attempts_of xs + attempts_of ys"
  by (induction xs rule: attempts_of.induct) simp_all

lemma delays_of_append: "delays_of (xs @ ys) = delays_of xs @ delays_of ys"
  by (induction xs rule: delays_of.induct) simp_all

lemma attempt_one_run:
  "attempts_of (fst (attempt w p a k)) = 1 \<and> delays_of (fst (attempt w p a k)) = []"
  by (simp add: attempt_def split: sum.splits)


lemma uploadImage_again:
  "attempt w p a k = (evs, Inl e) \<Longrightarrow> k < MAX_RETRIES \<Longrightarrow> shouldRetryUpload e \<Longrightarrow> k' = k + 1 \<Longrightarrow>
   uploadImage w p a k =
     (evs @ [EvDelay (RETRY_DELAY * 2 ^ k)] @ fst (uploadImage w p a k'),
      snd (uploadImage w p a k'))"
  by (subst uploadImage.simps) (simp add: case_prod_beta)

lemma uploadImage_give_up:
  "attempt w p a k = (evs, Inl e) \<Longrightarrow> \<not> (k < MAX_RETRIES \<and> shouldRetryUpload e) \<Longrightarrow>
   uploadImage w p a k =
     (evs, Inl (''Failed to upload image after '' @ string_of_nat (k + 1) @ '' attempts: '' @ e))"
  by (subst uploadImage.simps) auto

lemma string_of_nat_4: "string_of_nat (3 + 1) = ''4''"
  by code_simp

text \<open>
  C1. When every run of the three phases of an upload fails with an error of the
  allow-list, \<open>uploadImage\<close> makes \<open>MAX_RETRIES + 1 = 4\<close> runs, each a full run from the
  first phase, waits \<open>RETRY_DELAY * 2^k\<close> between run \<open>k\<close> and run \<open>k + 1\<close> (runs counted
  from 0), and fails with an error that names the 4 attempts. An error that does not match
  the allow-list ends the upload at once, with no wait and no further run, and the error
  names the attempts made so far.
\<close>

theorem uploadImage_retry_policy:
  "((\<forall>k \<le> MAX_RETRIES. \<exists>e. snd (attempt w p a k) = Inl e \<and> shouldRetryUpload e) \<longrightarrow>
      (\<exists>e. snd (attempt w p a 3) = Inl e
          \<and> uploadImage w p a 0 =
              (fst (attempt w p a 0) @ [EvDelay (RETRY_DELAY * 2 ^ 0)]
               @ fst (attempt w p a 1) @ [EvDelay (RETRY_DELAY * 2 ^ 1)]
               @ fst (attempt w p a 2) @ [EvDelay (RETRY_DELAY * 2 ^ 2)]
               @ fst (attempt w p a 3),
               Inl (''Failed to upload image after 4 attempts: '' @ e)))
      \<and> attempts_of (fst (uploadImage w p a 0)) = MAX_RETRIES + 1
      \<and> MAX_RETRIES + 1 = 4
      \<and> delays_of (fst (uploadImage w p a 0)) = [1000, 2000, 4000])
   \<and> (snd (attempt w p a k) = Inl e' \<and> \<not> shouldRetryUpload e' \<longrightarrow>
        uploadImage w p a k =
          (fst (attempt w p a k),
           Inl (''Failed to upload image after '' @ string_of_nat (k + 1) @ '' attempts: '' @ e')))"
proof (intro conjI impI)
  assume all: "\<forall>k \<le> MAX_RETRIES. \<exists>e. snd (attempt w p a k) = Inl e \<and> shouldRetryUpload e"
  have fails: "\<exists>e. attempt w p a k = (fst (attempt w p a k), Inl e) \<and> shouldRetryUpload e"
    if "k \<le> 3" for k
    using all that by (metis MAX_RETRIES_def prod.collapse)
  obtain e0 where e0: "attempt w p a 0 = (fst (attempt w p a 0), Inl e0)" "shouldRetryUpload e0"
    using fails [of 0] by auto
  obtain e1 where e1: "attempt w p a 1 = (fst (attempt w p a 1), Inl e1)" "shouldRetryUpload e1"
    using fails [of 1] by auto
  obtain e2 where e2: "attempt w p a 2 = (fst (attempt w p a 2), Inl e2)" "shouldRetryUpload e2"
    using fails [of 2] by auto
  obtain e3 where e3: "attempt w p a 3 = (fst (attempt w p a 3), Inl e3)" "shouldRetryUpload e3"
    using fails [of 3] by auto
  have u3: "uploadImage w p a 3 =
              (fst (attempt w p a 3), Inl (''Failed to upload image after 4 attempts: '' @ e3))"
    using uploadImage_give_up [OF e3(1)] string_of_nat_4 by (simp add: MAX_RETRIES_def)
  have u2: "uploadImage w p a 2 =
              (fst (attempt w p a 2) @ [EvDelay (RETRY_DELAY * 2 ^ 2)] @ fst (attempt w p a 3),
               Inl (''Failed to upload image after 4 attempts: '' @ e3))"
  proof -
    have "uploadImage w p a 2 =
            (fst (attempt w p a 2) @ [EvDelay (RETRY_DELAY * 2 ^ 2)] @ fst (uploadImage w p a 3),
             snd (uploadImage w p a 3))"
      by (rule uploadImage_again [OF e2(1) _ e2(2)]) (simp_all add: MAX_RETRIES_def)
    then show ?thesis unfolding u3 by simp
  qed
  have u1: "uploadImage w p a 1 =
              (fst (attempt w p a 1) @ [EvDelay (RETRY_DELAY * 2 ^ 1)]
               @ fst (attempt w p a 2) @ [EvDelay (RETRY_DELAY * 2 ^ 2)] @ fst (attempt w p a 3),
               Inl (''Failed to upload image after 4 attempts: '' @ e3))"
  proof -
    have "uploadImage w p a 1 =
            (fst (attempt w p a 1) @ [EvDelay (RETRY_DELAY * 2 ^ 1)] @ fst (uploadImage w p a 2),
             snd (uploadImage w p a 2))"
      by (rule uploadImage_again [OF e1(1) _ e1(2)]) (simp_all add: MAX_RETRIES_def)
    then show ?thesis unfolding u2 by simp
  qed
  have u0: "uploadImage w p a 0 =
              (fst (attempt w p a 0) @ [EvDelay (RETRY_DELAY * 2 ^ 0)]
               @ fst (attempt w p a 1) @ [EvDelay (RETRY_DELAY * 2 ^ 1)]
               @ fst (attempt w p a 2) @ [EvDelay (RETRY_DELAY * 2 ^ 2)] @ fst (attempt w p a 3),
               Inl (''Failed to upload image after 4 attempts: '' @ e3))"
  proof -
    have "uploadImage w p a 0 =
            (fst (attempt w p a 0) @ [EvDelay (RETRY_DELAY * 2 ^ 0)] @ fst (uploadImage w p a 1),
             snd (uploadImage w p a 1))"
      by (rule uploadImage_again [OF e0(1) _ e0(2)]) (simp_all add: MAX_RETRIES_def)
    then show ?thesis unfolding u1 by simp
  qed
  from e3(1) have s3: "snd (attempt w p a 3) = Inl e3"
    by (metis snd_conv)
  show "\<exists>e. snd (attempt w p a 3) = Inl e
          \<and> uploadImage w p a 0 =
              (fst (attempt w p a 0) @ [EvDelay (RETRY_DELAY * 2 ^ 0)]
               @ fst (attempt w p a 1) @ [EvDelay (RETRY_DELAY * 2 ^ 1)]
               @ fst (attempt w p a 2) @ [EvDelay (RETRY_DELAY * 2 ^ 2)]
               @ fst (attempt w p a 3),
               Inl (''Failed to upload image after 4 attempts: '' @ e))"
    by (rule exI [of _ e3]) (simp only: s3 u0 simp_thms)
  show "attempts_of (fst (uploadImage w p a 0)) = MAX_RETRIES + 1"
    unfolding u0 by (simp add: attempts_of_append attempt_one_run MAX_RETRIES_def)
  show "MAX_RETRIES + 1 = 4"
    by (simp add: MAX_RETRIES_def)
  show "delays_of (fst (uploadImage w p a 0)) = [1000, 2000, 4000]"
    unfolding u0 by (simp add: delays_of_append attempt_one_run RETRY_DELAY_def)
next
  assume "snd (attempt w p a k) = Inl e' \<and> \<not> shouldRetryUpload e'"
  then have run: "attempt w p a k = (fst (attempt w p a k), Inl e')"
    and no: "\<not> (k < MAX_RETRIES \<and> shouldRetryUpload e')"
    by (simp_all add: prod_eq_iff)
  show "uploadImage w p a k =
          (fst (attempt w p a k),
           Inl (''Failed to upload image after '' @ string_of_nat (k + 1) @ '' attempts: '' @ e'))"
    by (rule uploadImage_give_up [OF run no])
qed

text \<open>
  Two worlds: in \<open>world_busy\<close> every commit is turned away with a rate limit, in
  \<open>world_denied\<close> no upload session is granted.
\<close>

definition world_busy :: upload_world where
  "world_busy =
     \<lparr>initializeUploadSession = (\<lambda>_ _ _. Inr \<lparr>upload_url = ''https://u/1'', media_id = ''m1''\<rparr>),
      uploadFileToTikTok = (\<lambda>_ _ _. Inr ()),
      commitUpload = (\<lambda>_ _ _ _. Inl ''Failed to commit upload: Rate limit exceeded'')\<rparr>"

definition world_denied :: upload_world where
  "world_denied =
     \<lparr>initializeUploadSession =
        (\<lambda>_ _ _. Inl ''Failed to initialize upload session: access_token_invalid''),
      uploadFileToTikTok = (\<lambda>_ _ _. Inr ()),
      commitUpload = (\<lambda>_ _ _ _. Inr ())\<rparr>"

lemma rate_limit_is_transient:
  "shouldRetryUpload ''Failed to commit upload: Rate limit exceeded''"
  by code_simp

lemma invalid_token_is_permanent:
  "\<not> shouldRetryUpload ''Failed to initialize upload session: access_token_invalid''"
  by code_simp

lemma string_of_nat_1: "string_of_nat (Suc 0) = ''1''"
  by code_simp

theorem uploadImage_retry_policy_witness:
  "uploadImage world_busy ''/tmp/a.jpg'' ''default'' 0 =
     ([EvInit ''default'', EvTransfer ''/tmp/a.jpg'' ''https://u/1'', EvCommit ''m1'' ''default'',
       EvDelay 1000,
       EvInit ''default'', EvTransfer ''/tmp/a.jpg'' ''https://u/1'', EvCommit ''m1'' ''default'',
       EvDelay 2000,
       EvInit ''default'', EvTransfer ''/tmp/a.jpg'' ''https://u/1'', EvCommit ''m1'' ''default'',
       EvDelay 4000,
       EvInit ''default'', EvTransfer ''/tmp/a.jpg'' ''https://u/1'', EvCommit ''m1'' ''default''],
      Inl ''Failed to upload image after 4 attempts: Failed to commit upload: Rate limit exceeded'')
   \<and> attempts_of (fst (uploadImage world_busy ''/tmp/a.jpg'' ''default'' 0)) = 4
   \<and> delays_of (fst (uploadImage world_busy ''/tmp/a.jpg'' ''default'' 0)) = [1000, 2000, 4000]
   \<and> uploadImage world_denied ''/tmp/a.jpg'' ''default'' 0 =
       ([EvInit ''default''],
        Inl ''Failed to upload image after 1 attempts: Failed to initialize upload session: access_token_invalid'')"
proof -
  have busy: "attempt world_busy ''/tmp/a.jpg'' ''default'' k =
                ([EvInit ''default'', EvTransfer ''/tmp/a.jpg'' ''https://u/1'',
                  EvCommit ''m1'' ''default''],
                 Inl ''Failed to commit upload: Rate limit exceeded'')" for k
    by (simp add: attempt_def world_busy_def)
  have denied: "attempt world_denied ''/tmp/a.jpg'' ''default'' k =
                ([EvInit ''default''],
                 Inl ''Failed to initialize upload session: access_token_invalid'')" for k
    by (simp add: attempt_def world_denied_def)
  have hyp: "\<forall>k \<le> MAX_RETRIES. \<exists>e. snd (attempt world_busy ''/tmp/a.jpg'' ''default'' k) = Inl e
                                    \<and> shouldRetryUpload e"
    using rate_limit_is_transient by (simp add: busy)
  have hyp': "snd (attempt world_denied ''/tmp/a.jpg'' ''default'' 0)
                = Inl ''Failed to initialize upload session: access_token_invalid''
              \<and> \<not> shouldRetryUpload ''Failed to initialize upload session: access_token_invalid''"
    using invalid_token_is_permanent by (simp add: denied)
  note a = uploadImage_retry_policy
             [of world_busy "''/tmp/a.jpg''" "''default''" 0 "[]", THEN conjunct1, THEN mp, OF hyp]
  note b = uploadImage_retry_policy
             [of world_denied "''/tmp/a.jpg''" "''default''" 0
                 "''Failed to initialize upload session: access_token_invalid''",
              THEN conjunct2, THEN mp, OF hyp']
  from a have a1: "uploadImage world_busy ''/tmp/a.jpg'' ''default'' 0 =
     ([EvInit ''default'', EvTransfer ''/tmp/a.jpg'' ''https://u/1'', EvCommit ''m1'' ''default'',
       EvDelay 1000,
       EvInit ''default'', EvTransfer ''/tmp/a.jpg'' ''https://u/1'', EvCommit ''m1'' ''default'',
       EvDelay 2000,
       EvInit ''default'', EvTransfer ''/tmp/a.jpg'' ''https://u/1'', EvCommit ''m1'' ''default'',
       EvDelay 4000,
       EvInit ''default'', EvTransfer ''/tmp/a.jpg'' ''https://u/1'', EvCommit ''m1'' ''default''],
      Inl ''Failed to upload image after 4 attempts: Failed to commit upload: Rate limit exceeded'')"
    by (auto simp add: busy RETRY_DELAY_def)
  from a have a2: "attempts_of (fst (uploadImage world_busy ''/tmp/a.jpg'' ''default'' 0)) = 4"
    by simp
  from a have a3: "delays_of (fst (uploadImage world_busy ''/tmp/a.jpg'' ''default'' 0))
                   = [1000, 2000, 4000]"
    by simp
  from b have b1: "uploadImage world_denied ''/tmp/a.jpg'' ''default'' 0 =
       ([EvInit ''default''],
        Inl ''Failed to upload image after 1 attempts: Failed to initialize upload session: access_token_invalid'')"
    by (simp add: denied string_of_nat_1)
  from a1 a2 a3 b1 show ?thesis by (intro conjI)
qed

section \<open>Drafts\<close>

lemma post_request_body_draft:
  "postAsDraft options = Some True \<Longrightarrow>
   privacy_level (post_info (post_request_body ids options)) = SELF_ONLY"
  by (simp add: post_request_body_def Let_def)

lemma createCarouselPost_trace:
  "fst (createCarouselPost w ids options accountId) = []
   \<or> fst (createCarouselPost w ids options accountId) = [EvPublish (post_request_body ids options)]"
  by (simp add: createCarouselPost_def split: sum.splits)

lemma createCarouselPost_sends:
  assumes "ids \<noteq> []" and "length ids \<le> 10" and "access_token w accountId = Inr t"
  shows "fst (createCarouselPost w ids options accountId)
         = [EvPublish (post_request_body ids options)]"
  using assms
  by (simp add: createCarouselPost_def split: sum.splits)

text \<open>
  C9. When the draft flag of the options is set, every publish request that
  \<open>createCarouselPost\<close> sends carries the privacy level \<open>SELF_ONLY\<close>, whatever privacy
  level the options name; and with one to ten media ids and an access token a request is
  sent.
\<close>

theorem draft_is_self_only:
  assumes "postAsDraft options = Some True"
  shows "(\<forall>b. EvPublish b \<in> set (fst (createCarouselPost w ids options accountId))
              \<longrightarrow> privacy_level (post_info b) = SELF_ONLY)
       \<and> (ids \<noteq> [] \<and> length ids \<le> 10 \<and> (\<exists>t. access_token w accountId = Inr t)
            \<longrightarrow> (\<exists>b. fst (createCarouselPost w ids options accountId) = [EvPublish b]
                      \<and> privacy_level (post_info b) = SELF_ONLY))"
proof (intro conjI allI impI)
  fix b
  assume "EvPublish b \<in> set (fst (createCarouselPost w ids options accountId))"
  with createCarouselPost_trace [of w ids options accountId]
  have "b = post_request_body ids options"
    by auto
  with assms show "privacy_level (post_info b) = SELF_ONLY"
    by (simp add: post_request_body_draft)
next
  assume "ids \<noteq> [] \<and> length ids \<le> 10 \<and> (\<exists>t. access_token w accountId = Inr t)"
  then have "fst (createCarouselPost w ids options accountId)
             = [EvPublish (post_request_body ids options)]"
    using createCarouselPost_sends [of ids w accountId _ options] by blast
  with assms show "\<exists>b. fst (createCarouselPost w ids options accountId) = [EvPublish b]
            \<and> privacy_level (post_info b) = SELF_ONLY"
    by (simp add: post_request_body_draft)
qed

definition world_post :: post_world where
  "world_post =
     \<lparr>access_token = (\<lambda>_. Inr ''tok''),
      fetch_publish =
        (\<lambda>_ _. Inr \<lparr>ok = True, http_status = 200, statusText = ''OK'', body_error = None,
                       body_message = None,
                       body_data = Some \<lparr>publish_id = ''post1'', share_url = None,
                                          publish_status = ''PUBLISH_COMPLETE''\<rparr>\<rparr>)\<rparr>"

definition draft_options :: CreateCarouselOptions where
  "draft_options =
     \<lparr>caption = Some ''Hello'', tags = Some [''a'', ''#b''], postAsDraft = Some True,
      privacyLevel = Some PUBLIC_TO_EVERYONE\<rparr>"

theorem draft_is_self_only_witness:
  "postAsDraft draft_options = Some True
   \<and> privacyLevel draft_options = Some PUBLIC_TO_EVERYONE
   \<and> (\<exists>b. fst (createCarouselPost world_post [''m1'', ''m2''] draft_options ''default'')
              = [EvPublish b]
          \<and> privacy_level (post_info b) = SELF_ONLY
          \<and> text_info (post_info b) = ''Hello'' @ [CHR 0x0A, CHR 0x0A] @ ''#a #b'')"
proof -
  have d: "postAsDraft draft_options = Some True"
    by (simp add: draft_options_def)
  have pre: "[''m1'', ''m2''] \<noteq> [] \<and> length [''m1'', ''m2''] \<le> 10
             \<and> (\<exists>t. access_token world_post ''default'' = Inr t)"
    by (simp add: world_post_def)
  from draft_is_self_only [OF d, of world_post "[''m1'', ''m2'']" "''default''",
                           THEN conjunct2, THEN mp, OF pre]
  obtain b where b: "fst (createCarouselPost world_post [''m1'', ''m2''] draft_options ''default'')
                     = [EvPublish b]"
    and p: "privacy_level (post_info b) = SELF_ONLY"
    by blast
  have "text_info (post_info b) = ''Hello'' @ [CHR 0x0A, CHR 0x0A] @ ''#a #b''"
    using b
    by (auto simp add: createCarouselPost_def post_request_body_def world_post_def
                       draft_options_def Let_def or_else_def startsWith_def)
  with b p d show ?thesis
    by (simp add: draft_options_def)
qed

section \<open>Refreshing an access token\<close>

lemma refresh_exchange_ok:
  assumes "fetch_token w a rt = Inr r" and "t_ok r" and "\<not> t_error r"
    and "t_data r = Some d" and "td_access_token d = Some tok" and "td_expires_in d = Some n"
    and "date_valid (now_refresh w + n * 1000)"
  shows "refresh_exchange w a c rt =
           Inr (c\<lparr>accessToken := Some (Sealed (iv_access w) tok),
                  refreshToken_of :=
                    (if truthy (td_refresh_token d)
                     then Some (Sealed (iv_refresh w) (the (td_refresh_token d)))
                     else refreshToken_of c),
                  expiresAt := Some (now_refresh w + n * 1000)\<rparr>)"
  using assms by (simp add: refresh_exchange_def encrypt_def)

lemma refresh_exchange_out_of_range:
  assumes "fetch_token w a rt = Inr r" and "t_ok r" and "\<not> t_error r"
    and "t_data r = Some d" and "td_access_token d = Some tok" and "td_expires_in d = Some n"
    and "\<not> date_valid (now_refresh w + n * 1000)"
  shows "refresh_exchange w a c rt = Inl (fault_text w InvalidTimeValue)"
  using assms by (simp add: refresh_exchange_def)

lemma refreshToken_done:
  assumes "map_of store a = Some c" and "refreshToken_of c = Some (Sealed iv rt)"
    and "refresh_exchange w a c rt = Inr c'"
  shows "refreshToken w a store = (Inr c', AList.update a c' store)"
  using assms by (simp add: refreshToken_def)

lemma refreshToken_failed:
  assumes "map_of store a = Some c" and "refreshToken_of c = Some (Sealed iv rt)"
    and "refresh_exchange w a c rt = Inl e"
  shows "refreshToken w a store = (Inl e, AList.delete a store)"
  using assms by (simp add: refreshToken_def)

lemma refreshToken_guard:
  assumes "map_of store a = Some c" and "\<not> present (refreshToken_of c)"
  shows "refreshToken w a store = (Inl (''No refresh token available for account: '' @ a), store)"
  using assms by (simp add: refreshToken_def)

lemma refreshToken_unsealable:
  assumes "map_of store a = Some c" and "refreshToken_of c = Some (Unsealable s)" and "s \<noteq> []"
  shows "refreshToken w a store =
           (Inl (if colon_parts s \<noteq> 3 then ''Invalid encrypted text format''
                 else fault_text w (CipherFault s)), store)"
  using assms by (simp add: refreshToken_def)

lemma getValidAccessToken_due:
  assumes "map_of store a = Some c" and "expiresAt c = Some t" and "t \<le> now + 5 * 60 * 1000"
  shows "getValidAccessToken w now a store =
           (case refreshToken w a store of
              (Inl e, store') \<Rightarrow> (Inl e, store')
            | (Inr c', store') \<Rightarrow>
                if \<not> present (accessToken c')
                then (Inl (''No access token available for account: '' @ a), store')
                else (decrypt (fault_text w) (the (accessToken c')), store'))"
  using assms by (simp add: getValidAccessToken_def)

text \<open>
  C7, as the claim states it, fails: a stored credential that is due for a refresh and
  holds no refresh token makes the refresh fail, the error reaches the caller, and the
  credential stays in the store.
\<close>

definition creds_with :: "sealed option \<Rightarrow> sealed option \<Rightarrow> int option \<Rightarrow> TikTokCredentials" where
  "creds_with acc rfr ex =
     \<lparr>clientId = ''client'', clientSecret = ''secret'', redirectUri = ''https://app/callback'',
      appId = ''app'', accessToken = acc, refreshToken_of = rfr, expiresAt = ex\<rparr>"

text \<open>Messages of the faults, as one runtime words them.\<close>

fun fault_words :: "fault \<Rightarrow> string" where
  "fault_words (CipherFault s) = ''Invalid authentication tag length: 1''"
| "fault_words MissingTokenData = ''Cannot read properties of undefined''"
| "fault_words MissingAccessToken = ''The data argument must be of type string''"
| "fault_words InvalidTimeValue = ''Invalid time value''"

definition reply_for :: "int \<Rightarrow> token_reply" where
  "reply_for seconds =
     \<lparr>t_ok = True, t_error = False, t_error_description = None, t_message = None,
      t_data = Some \<lparr>td_access_token = Some ''A2'', td_expires_in = Some seconds,
                      td_refresh_token = None\<rparr>\<rparr>"

definition world_granted :: auth_world where
  "world_granted =
     \<lparr>fetch_token = (\<lambda>_ _. Inr (reply_for 86400)),
      iv_access = 7, iv_refresh = 8, now_refresh = 1000001, fault_text = fault_words\<rparr>"

definition world_forever :: auth_world where
  "world_forever =
     \<lparr>fetch_token = (\<lambda>_ _. Inr (reply_for 10000000000000000)),
      iv_access = 7, iv_refresh = 8, now_refresh = 1000001, fault_text = fault_words\<rparr>"

definition world_revoked :: auth_world where
  "world_revoked =
     \<lparr>fetch_token =
        (\<lambda>_ _. Inr \<lparr>t_ok = False, t_error = True, t_error_description = Some ''invalid_grant'',
                       t_message = None, t_data = None\<rparr>),
      iv_access = 7, iv_refresh = 8, now_refresh = 1000001, fault_text = fault_words\<rparr>"

definition store_bare :: cred_store where
  "store_bare = [(''shop'', creds_with (Some (Sealed 1 ''A1'')) None (Some 0))]"

theorem refresh_without_token_counterexample:
  "map_of store_bare ''shop'' = Some (creds_with (Some (Sealed 1 ''A1'')) None (Some 0))
   \<and> getValidAccessToken world_granted 1000000 ''shop'' store_bare
       = (Inl ''No refresh token available for account: shop'', store_bare)"
  by (simp add: store_bare_def creds_with_def getValidAccessToken_def refreshToken_def)

text \<open>
  C7, amended. For an account whose stored credential expires within five minutes of
  now: when the credential holds a refresh token that decrypts, \<open>getValidAccessToken\<close>
  sends the refresh request; on a successful reply whose expiry is a valid date it stores
  the new access token and expiry (and the new refresh token when the reply carries one,
  else it keeps the old one) and returns the new access token; when the request or the
  handling of its reply fails (an expiry beyond the range of dates included), the
  account's credential is removed from the store and the error reaches the caller. When
  the credential holds no refresh token, or one that does not decrypt, the call fails
  before any request, with the error of the guard or of \<open>decrypt\<close>, and the credential
  stays in the store. For an account with no stored credential the call fails with the
  not-authorized error and the store is unchanged.
\<close>

theorem getValidAccessToken_refresh:
  "(map_of store a = None \<longrightarrow>
      getValidAccessToken w now a store =
        (Inl (''No credentials found for account: '' @ a @ ''. Please authorize first.''), store))
   \<and> (map_of store a = Some c \<and> expiresAt c = Some t \<and> t \<le> now + 5 * 60 * 1000 \<longrightarrow>
        (refreshToken_of c = Some (Sealed iv rt) \<and> fetch_token w a rt = Inr r
           \<and> t_ok r \<and> \<not> t_error r \<and> t_data r = Some d
           \<and> td_access_token d = Some tok \<and> td_expires_in d = Some n
           \<and> date_valid (now_refresh w + n * 1000) \<longrightarrow>
           getValidAccessToken w now a store =
             (Inr tok,
              AList.update a
                (c\<lparr>accessToken := Some (Sealed (iv_access w) tok),
                   refreshToken_of :=
                     (if truthy (td_refresh_token d)
                      then Some (Sealed (iv_refresh w) (the (td_refresh_token d)))
                      else refreshToken_of c),
                   expiresAt := Some (now_refresh w + n * 1000)\<rparr>) store)
           \<and> map_of (snd (getValidAccessToken w now a store)) a =
               Some (c\<lparr>accessToken := Some (Sealed (iv_access w) tok),
                       refreshToken_of :=
                         (if truthy (td_refresh_token d)
                          then Some (Sealed (iv_refresh w) (the (td_refresh_token d)))
                          else refreshToken_of c),
                       expiresAt := Some (now_refresh w + n * 1000)\<rparr>))
        \<and> (refreshToken_of c = Some (Sealed iv rt) \<and> refresh_exchange w a c rt = Inl e \<longrightarrow>
             getValidAccessToken w now a store = (Inl e, AList.delete a store)
             \<and> map_of (snd (getValidAccessToken w now a store)) a = None)
        \<and> (refreshToken_of c = Some (Sealed iv rt) \<and> fetch_token w a rt = Inr r
             \<and> t_ok r \<and> \<not> t_error r \<and> t_data r = Some d
             \<and> td_access_token d = Some tok \<and> td_expires_in d = Some n
             \<and> \<not> date_valid (now_refresh w + n * 1000) \<longrightarrow>
             getValidAccessToken w now a store
               = (Inl (fault_text w InvalidTimeValue), AList.delete a store)
             \<and> map_of (snd (getValidAccessToken w now a store)) a = None)
        \<and> (\<not> present (refreshToken_of c) \<longrightarrow>
             getValidAccessToken w now a store =
               (Inl (''No refresh token available for account: '' @ a), store))
        \<and> (refreshToken_of c = Some (Unsealable s) \<and> s \<noteq> [] \<longrightarrow>
             getValidAccessToken w now a store =
               (Inl (if colon_parts s \<noteq> 3 then ''Invalid encrypted text format''
                     else fault_text w (CipherFault s)), store)))"
proof (intro conjI impI)
  assume "map_of store a = None"
  then show "getValidAccessToken w now a store =
        (Inl (''No credentials found for account: '' @ a @ ''. Please authorize first.''), store)"
    by (simp add: getValidAccessToken_def)
next
  assume due: "map_of store a = Some c \<and> expiresAt c = Some t \<and> t \<le> now + 5 * 60 * 1000"
  then have c: "map_of store a = Some c" by simp
  note unfold = getValidAccessToken_due [of store a c t now w]
  assume ok: "refreshToken_of c = Some (Sealed iv rt) \<and> fetch_token w a rt = Inr r
           \<and> t_ok r \<and> \<not> t_error r \<and> t_data r = Some d
           \<and> td_access_token d = Some tok \<and> td_expires_in d = Some n
           \<and> date_valid (now_refresh w + n * 1000)"
  let ?c' = "c\<lparr>accessToken := Some (Sealed (iv_access w) tok),
               refreshToken_of :=
                 (if truthy (td_refresh_token d)
                  then Some (Sealed (iv_refresh w) (the (td_refresh_token d)))
                  else refreshToken_of c),
               expiresAt := Some (now_refresh w + n * 1000)\<rparr>"
  from ok have "refresh_exchange w a c rt = Inr ?c'"
    by (simp add: refresh_exchange_ok)
  with c ok have "refreshToken w a store = (Inr ?c', AList.update a ?c' store)"
    by (simp add: refreshToken_done)
  with unfold due show g: "getValidAccessToken w now a store = (Inr tok, AList.update a ?c' store)"
    by simp
  show "map_of (snd (getValidAccessToken w now a store)) a = Some ?c'"
    unfolding g by (simp add: update_conv')
next
  assume due: "map_of store a = Some c \<and> expiresAt c = Some t \<and> t \<le> now + 5 * 60 * 1000"
  then have c: "map_of store a = Some c" by simp
  note unfold = getValidAccessToken_due [of store a c t now w]
  assume "refreshToken_of c = Some (Sealed iv rt) \<and> refresh_exchange w a c rt = Inl e"
  with c have "refreshToken w a store = (Inl e, AList.delete a store)"
    by (simp add: refreshToken_failed)
  with unfold due show g: "getValidAccessToken w now a store = (Inl e, AList.delete a store)"
    by simp
  show "map_of (snd (getValidAccessToken w now a store)) a = None"
    unfolding g by (simp add: delete_conv')
next
  assume due: "map_of store a = Some c \<and> expiresAt c = Some t \<and> t \<le> now + 5 * 60 * 1000"
  then have c: "map_of store a = Some c" by simp
  note unfold = getValidAccessToken_due [of store a c t now w]
  assume far: "refreshToken_of c = Some (Sealed iv rt) \<and> fetch_token w a rt = Inr r
             \<and> t_ok r \<and> \<not> t_error r \<and> t_data r = Some d
             \<and> td_access_token d = Some tok \<and> td_expires_in d = Some n
             \<and> \<not> date_valid (now_refresh w + n * 1000)"
  then have "refresh_exchange w a c rt = Inl (fault_text w InvalidTimeValue)"
    by (simp add: refresh_exchange_out_of_range)
  with c far have "refreshToken w a store
                   = (Inl (fault_text w InvalidTimeValue), AList.delete a store)"
    by (simp add: refreshToken_failed)
  with unfold due show g: "getValidAccessToken w now a store
               = (Inl (fault_text w InvalidTimeValue), AList.delete a store)"
    by simp
  show "map_of (snd (getValidAccessToken w now a store)) a = None"
    unfolding g by (simp add: delete_conv')
next
  assume due: "map_of store a = Some c \<and> expiresAt c = Some t \<and> t \<le> now + 5 * 60 * 1000"
  then have c: "map_of store a = Some c" by simp
  note unfold = getValidAccessToken_due [of store a c t now w]
  assume "\<not> present (refreshToken_of c)"
  with c have "refreshToken w a store
               = (Inl (''No refresh token available for account: '' @ a), store)"
    by (simp add: refreshToken_guard)
  with unfold due show "getValidAccessToken w now a store =
               (Inl (''No refresh token available for account: '' @ a), store)"
    by simp
next
  assume due: "map_of store a = Some c \<and> expiresAt c = Some t \<and> t \<le> now + 5 * 60 * 1000"
  then have c: "map_of store a = Some c" by simp
  note unfold = getValidAccessToken_due [of store a c t now w]
  assume "refreshToken_of c = Some (Unsealable s) \<and> s \<noteq> []"
  with c have "refreshToken w a store
               = (Inl (if colon_parts s \<noteq> 3 then ''Invalid encrypted text format''
                       else fault_text w (CipherFault s)), store)"
    by (simp add: refreshToken_unsealable)
  with unfold due show "getValidAccessToken w now a store
                        = (Inl (if colon_parts s \<noteq> 3 then ''Invalid encrypted text format''
                                else fault_text w (CipherFault s)), store)"
    by simp
qed

definition store_due :: cred_store where
  "store_due = [(''shop'', creds_with (Some (Sealed 1 ''A1'')) (Some (Sealed 2 ''R1'')) (Some 1000100))]"

definition store_garbled :: cred_store where
  "store_garbled =
     [(''shop'', creds_with (Some (Sealed 1 ''A1'')) (Some (Unsealable ''aa:bb:cc'')) (Some 1000100))]"

definition store_plain :: cred_store where
  "store_plain =
     [(''shop'', creds_with (Some (Sealed 1 ''A1'')) (Some (Unsealable ''R1'')) (Some 1000100))]"

lemma three_parts: "colon_parts ''aa:bb:cc'' = 3" and one_part: "colon_parts ''R1'' = 1"
  by (simp_all add: colon_parts_def)

theorem getValidAccessToken_refresh_witness:
  "getValidAccessToken world_granted 1000000 ''shop'' store_due
     = (Inr ''A2'',
        [(''shop'', creds_with (Some (Sealed 7 ''A2'')) (Some (Sealed 2 ''R1'')) (Some 87400001))])
   \<and> getValidAccessToken world_revoked 1000000 ''shop'' store_due
       = (Inl ''TikTok refresh token error: invalid_grant'', [])
   \<and> getValidAccessToken world_forever 1000000 ''shop'' store_due
       = (Inl ''Invalid time value'', [])
   \<and> getValidAccessToken world_granted 1000000 ''shop'' store_bare
       = (Inl ''No refresh token available for account: shop'', store_bare)
   \<and> getValidAccessToken world_granted 1000000 ''shop'' store_garbled
       = (Inl ''Invalid authentication tag length: 1'', store_garbled)
   \<and> getValidAccessToken world_granted 1000000 ''shop'' store_plain
       = (Inl ''Invalid encrypted text format'', store_plain)
   \<and> getValidAccessToken world_granted 1000000 ''nobody'' store_due
       = (Inl ''No credentials found for account: nobody. Please authorize first.'', store_due)"
proof -
  let ?c = "creds_with (Some (Sealed 1 ''A1'')) (Some (Sealed 2 ''R1'')) (Some 1000100)"
  let ?b = "creds_with (Some (Sealed 1 ''A1'')) None (Some 0)"
  let ?g = "creds_with (Some (Sealed 1 ''A1'')) (Some (Unsealable ''aa:bb:cc'')) (Some 1000100)"
  let ?p = "creds_with (Some (Sealed 1 ''A1'')) (Some (Unsealable ''R1'')) (Some 1000100)"
  let ?d = "\<lambda>seconds. \<lparr>td_access_token = Some ''A2'', td_expires_in = Some seconds,
                        td_refresh_token = None\<rparr>"
  have due: "map_of store_due ''shop'' = Some ?c \<and> expiresAt ?c = Some 1000100
             \<and> (1000100::int) \<le> 1000000 + 5 * 60 * 1000"
    by (simp add: store_due_def creds_with_def)
  have bare: "map_of store_bare ''shop'' = Some ?b \<and> expiresAt ?b = Some 0
             \<and> (0::int) \<le> 1000000 + 5 * 60 * 1000"
    by (simp add: store_bare_def creds_with_def)
  have garbled: "map_of store_garbled ''shop'' = Some ?g \<and> expiresAt ?g = Some 1000100
             \<and> (1000100::int) \<le> 1000000 + 5 * 60 * 1000"
    by (simp add: store_garbled_def creds_with_def)
  have plain: "map_of store_plain ''shop'' = Some ?p \<and> expiresAt ?p = Some 1000100
             \<and> (1000100::int) \<le> 1000000 + 5 * 60 * 1000"
    by (simp add: store_plain_def creds_with_def)
  have ok: "refreshToken_of ?c = Some (Sealed 2 ''R1'')
            \<and> fetch_token world_granted ''shop'' ''R1'' = Inr (reply_for 86400)
            \<and> t_ok (reply_for 86400) \<and> \<not> t_error (reply_for 86400)
            \<and> t_data (reply_for 86400) = Some (?d 86400)
            \<and> td_access_token (?d 86400) = Some ''A2''
            \<and> td_expires_in (?d 86400) = Some 86400
            \<and> date_valid (now_refresh world_granted + 86400 * 1000)"
    by (simp add: creds_with_def world_granted_def reply_for_def date_valid_def)
  have far: "refreshToken_of ?c = Some (Sealed 2 ''R1'')
            \<and> fetch_token world_forever ''shop'' ''R1'' = Inr (reply_for 10000000000000000)
            \<and> t_ok (reply_for 10000000000000000) \<and> \<not> t_error (reply_for 10000000000000000)
            \<and> t_data (reply_for 10000000000000000) = Some (?d 10000000000000000)
            \<and> td_access_token (?d 10000000000000000) = Some ''A2''
            \<and> td_expires_in (?d 10000000000000000) = Some 10000000000000000
            \<and> \<not> date_valid (now_refresh world_forever + 10000000000000000 * 1000)"
    by (simp add: creds_with_def world_forever_def reply_for_def date_valid_def)
  have bad: "refreshToken_of ?c = Some (Sealed 2 ''R1'')
             \<and> refresh_exchange world_revoked ''shop'' ?c ''R1''
                 = Inl ''TikTok refresh token error: invalid_grant''"
    by (simp add: creds_with_def world_revoked_def refresh_exchange_def or_else_def)
  have none: "\<not> present (refreshToken_of ?b)"
    by (simp add: creds_with_def)
  have junk: "refreshToken_of ?g = Some (Unsealable ''aa:bb:cc'') \<and> ''aa:bb:cc'' \<noteq> []"
    by (simp add: creds_with_def)
  have raw: "refreshToken_of ?p = Some (Unsealable ''R1'') \<and> ''R1'' \<noteq> []"
    by (simp add: creds_with_def)
  have miss: "map_of store_due ''nobody'' = None"
    by (simp add: store_due_def)
  have 1: "getValidAccessToken world_granted 1000000 ''shop'' store_due
     = (Inr ''A2'',
        [(''shop'', creds_with (Some (Sealed 7 ''A2'')) (Some (Sealed 2 ''R1'')) (Some 87400001))])"
    using getValidAccessToken_refresh
            [where store = store_due and a = "''shop''" and c = ?c and t = 1000100
               and now = 1000000 and w = world_granted and iv = 2 and rt = "''R1''"
               and r = "reply_for 86400" and d = "?d 86400" and tok = "''A2''" and n = 86400,
             THEN conjunct2, THEN mp, OF due, THEN conjunct1, THEN mp, OF ok, THEN conjunct1]
    by (simp add: store_due_def creds_with_def world_granted_def)
  have 2: "getValidAccessToken world_revoked 1000000 ''shop'' store_due
       = (Inl ''TikTok refresh token error: invalid_grant'', [])"
    using getValidAccessToken_refresh
            [where store = store_due and a = "''shop''" and c = ?c and t = 1000100
               and now = 1000000 and w = world_revoked and iv = 2 and rt = "''R1''"
               and e = "''TikTok refresh token error: invalid_grant''",
             THEN conjunct2, THEN mp, OF due, THEN conjunct2, THEN conjunct1, THEN mp, OF bad,
             THEN conjunct1]
    by (simp add: store_due_def AList.delete_eq)
  have 3: "getValidAccessToken world_forever 1000000 ''shop'' store_due
       = (Inl ''Invalid time value'', [])"
    using getValidAccessToken_refresh
            [where store = store_due and a = "''shop''" and c = ?c and t = 1000100
               and now = 1000000 and w = world_forever and iv = 2 and rt = "''R1''"
               and r = "reply_for 10000000000000000" and d = "?d 10000000000000000"
               and tok = "''A2''" and n = 10000000000000000,
             THEN conjunct2, THEN mp, OF due, THEN conjunct2, THEN conjunct2, THEN conjunct1,
             THEN mp, OF far, THEN conjunct1]
    by (simp add: store_due_def AList.delete_eq world_forever_def)
  have 4: "getValidAccessToken world_granted 1000000 ''shop'' store_bare
       = (Inl ''No refresh token available for account: shop'', store_bare)"
    using getValidAccessToken_refresh
            [where store = store_bare and a = "''shop''" and c = ?b and t = 0
               and now = 1000000 and w = world_granted,
             THEN conjunct2, THEN mp, OF bare, THEN conjunct2, THEN conjunct2, THEN conjunct2,
             THEN conjunct1, THEN mp, OF none]
    by simp
  have 5: "getValidAccessToken world_granted 1000000 ''shop'' store_garbled
       = (Inl ''Invalid authentication tag length: 1'', store_garbled)"
    using getValidAccessToken_refresh
            [where store = store_garbled and a = "''shop''" and c = ?g and t = 1000100
               and now = 1000000 and w = world_granted and s = "''aa:bb:cc''",
             THEN conjunct2, THEN mp, OF garbled, THEN conjunct2, THEN conjunct2, THEN conjunct2,
             THEN conjunct2, THEN mp, OF junk]
    by (simp add: three_parts world_granted_def)
  have 6: "getValidAccessToken world_granted 1000000 ''shop'' store_plain
       = (Inl ''Invalid encrypted text format'', store_plain)"
    using getValidAccessToken_refresh
            [where store = store_plain and a = "''shop''" and c = ?p and t = 1000100
               and now = 1000000 and w = world_granted and s = "''R1''",
             THEN conjunct2, THEN mp, OF plain, THEN conjunct2, THEN conjunct2, THEN conjunct2,
             THEN conjunct2, THEN mp, OF raw]
    by (simp add: one_part)
  have 7: "getValidAccessToken world_granted 1000000 ''nobody'' store_due
       = (Inl ''No credentials found for account: nobody. Please authorize first.'', store_due)"
    using getValidAccessToken_refresh
            [where store = store_due and a = "''nobody''" and now = 1000000 and w = world_granted,
             THEN conjunct1, THEN mp, OF miss]
    by simp
  from 1 2 3 4 5 6 7 show ?thesis by (intro conjI)
qed

section \<open>Raw base64 input\<close>

lemma temp_paths_not_data_url:
  "match_data_url b = None \<Longrightarrow>
   temp_paths stamp i (b # bs) = Inl (''Invalid base64 format for image '' @ string_of_nat (i + 1))"
  by simp

lemma uploadBase64Images_not_data_url:
  "match_data_url b = None \<Longrightarrow>
   uploadBase64Images w stamp (b # bs) accountId
     = ([], Inl (''Invalid base64 format for image '' @ string_of_nat (0 + 1)))"
  by (simp add: uploadBase64Images_def)

text \<open>The first characters of a JPEG file in base64, with no data-URL prefix.\<close>

definition raw_jpeg :: string where
  "raw_jpeg = ''/9j/4AAQSkZJRgABAQAAAQABAAD/2wBDAAgGBgcGBQgHBwcJ''"

lemma raw_jpeg_no_match: "match_data_url raw_jpeg = None"
  by code_simp

lemma raw_jpeg_valid: "validateBase64Image default_upload_config raw_jpeg = Inr ''image/jpeg''"
  by code_simp

text \<open>
  C8. The claim holds of the validation and fails in the upload: a raw base64 string
  that starts with the magic number of a JPEG file passes \<open>validateBase64Image\<close>, which
  reads its type from the first bytes, and is then refused by \<open>uploadBase64Images\<close>, which
  accepts data URLs only, before any upload is tried.
\<close>

theorem raw_base64_validated_then_refused:
  "match_data_url raw_jpeg = None
   \<and> validateBase64Image default_upload_config raw_jpeg = Inr ''image/jpeg''
   \<and> uploadBase64Images w stamp [raw_jpeg] accountId
       = ([], Inl ''Invalid base64 format for image 1'')"
  using uploadBase64Images_not_data_url [OF raw_jpeg_no_match, of w stamp "[]" accountId]
        raw_jpeg_no_match raw_jpeg_valid string_of_nat_1
  by simp

section \<open>Rounding to a double is monotone\<close>
































section \<open>Progress updates of the asynchronous task\<close>






































end
